theory Spec2Isabelle
  imports Main
begin

section \<open>The API JSON generator of api-extractor\<close>

text \<open>
  A shallow embedding of \<^verbatim>\<open>ApiJsonGenerator\<close>
  (\<^verbatim>\<open>libraries/api-extractor/src/generators/ApiJsonGenerator.ts\<close>): the visitor that
  walks the declaration tree of a package and assembles the \<^verbatim>\<open>*.api.json\<close> document.

  JavaScript objects are association lists in insertion order, the objects that the
  source mutates in place are returned updated, a \<^verbatim>\<open>throw\<close> is the left summand of a
  sum, and the static field \<^verbatim>\<open>_methodCounter\<close> is threaded through the traversal.
\<close>

subsection \<open>JSON values and JavaScript objects\<close>

datatype json =
    JUndefined
  | JNull
  | JBool bool
  | JNumber int
  | JString string
  | JArray "json list"
  | JObject "(string \<times> json) list"

type_synonym obj = "(string \<times> json) list"

text \<open>JavaScript's truthiness, as \<^verbatim>\<open>||\<close>, \<^verbatim>\<open>!!\<close> and \<^verbatim>\<open>if\<close> test it.\<close>

fun truthy :: "json \<Rightarrow> bool" where
  "truthy JUndefined = False"
| "truthy JNull = False"
| "truthy (JBool b) = b"
| "truthy (JNumber n) = (n \<noteq> 0)"
| "truthy (JString s) = (s \<noteq> [])"
| "truthy (JArray xs) = True"
| "truthy (JObject fs) = True"

text \<open>\<^verbatim>\<open>x || d\<close>\<close>

definition orElse :: "json \<Rightarrow> json \<Rightarrow> json" where
  "orElse x d = (if truthy x then x else d)"

text \<open>
  \<^verbatim>\<open>o[k] = v\<close>: an existing property keeps its place and takes the new value, a new
  property is appended. (The enumeration order that JavaScript gives to integer-like
  keys is not modelled: properties are listed in insertion order.)
\<close>

fun setProp :: "(string \<times> 'v) list \<Rightarrow> string \<Rightarrow> 'v \<Rightarrow> (string \<times> 'v) list" where
  "setProp [] k v = [(k, v)]"
| "setProp ((k', v') # ps) k v = (if k' = k then (k, v) # ps else (k', v') # setProp ps k v)"

text \<open>\<^verbatim>\<open>o[k]\<close>, with \<^verbatim>\<open>undefined\<close> for a missing property, is \<^term>\<open>map_of\<close>.\<close>

text \<open>The decimal digits of a number, as string concatenation with a number gives them.\<close>

definition digit :: "nat \<Rightarrow> char" where
  "digit d = ''0123456789'' ! d"

fun numberToString :: "nat \<Rightarrow> string" where
  "numberToString n = (if n < 10 then [digit n] else numberToString (n div 10) @ [digit (n mod 10)])"

declare numberToString.simps [simp del]

subsection \<open>The declaration model\<close>

text \<open>
  The classes of the declaration tree (\<^verbatim>\<open>src/ast/*.ts\<close>) are not among the sources:
  the records below hold the fields and the results of the getters that the generator
  reads, with the names the generator uses. Fields that are only passed through to
  the document are JSON values, so that \<^verbatim>\<open>undefined\<close> is one of them.
\<close>

datatype AstItemKind =
    Class | Constructor | Enum | EnumValue | Function | Interface | Method
  | Namespace | Package | Parameter | Property | TypeLiteral | ModuleVariable

datatype ReleaseTag =
    ReleaseTag_None | ReleaseTag_Internal | ReleaseTag_Alpha | ReleaseTag_Beta | ReleaseTag_Public

text \<open>
  Modelled from the spec: the enum \<^verbatim>\<open>AccessModifier\<close> of \<^verbatim>\<open>ast/AstMember.ts\<close> is not
  among the sources. The spec names the output "accessModifier (lowercase name ...)";
  the members are numbered from 0 in declaration order, as TypeScript numbers an enum.
\<close>

datatype AccessModifier = Private | Protected | Public

fun AccessModifier_value :: "AccessModifier \<Rightarrow> nat" where
  "AccessModifier_value Private = 0"
| "AccessModifier_value Protected = 1"
| "AccessModifier_value Public = 2"

text \<open>\<^verbatim>\<open>AccessModifier[m].toLowerCase()\<close>\<close>

fun AccessModifier_lowerName :: "AccessModifier \<Rightarrow> string" where
  "AccessModifier_lowerName Private = ''private''"
| "AccessModifier_lowerName Protected = ''protected''"
| "AccessModifier_lowerName Public = ''public''"

text \<open>
  A \<^verbatim>\<open>ts.Declaration\<close>: its syntax kind (a number of the enum \<^verbatim>\<open>ts.SyntaxKind\<close>) and
  the texts of its tokens in source order. \<^verbatim>\<open>getFirstToken()\<close> and \<^verbatim>\<open>getLastToken()\<close>
  give the first and the last token node; a token node is its position together with
  its text, so that two nodes are the same object exactly when they are equal.
\<close>

record ts_Declaration =
  syntaxKind :: nat
  tokens :: "string list"

type_synonym ts_Node = "nat \<times> string"

definition getFirstToken :: "ts_Declaration \<Rightarrow> ts_Node option" where
  "getFirstToken d = (case tokens d of [] \<Rightarrow> None | t # ts \<Rightarrow> Some (0, t))"

definition getLastToken :: "ts_Declaration \<Rightarrow> ts_Node option" where
  "getLastToken d =
     (case tokens d of [] \<Rightarrow> None | t # ts \<Rightarrow> Some (length ts, last (t # ts)))"

definition getText :: "ts_Node \<Rightarrow> string" where
  "getText n = snd n"

text \<open>
  \<^verbatim>\<open>ts.SyntaxKind.SetAccessor\<close>. The number depends on the version of the TypeScript
  compiler; no theorem below depends on it.
\<close>

definition SetAccessor :: nat where
  "SetAccessor = 154"

record ApiDocumentation =
  releaseTag :: ReleaseTag
  summary :: json
  remarks :: json
  deprecatedMessage :: json
  parameters :: "(string \<times> obj) list"
  returnsMessage :: json

record AstItem_fields =
  name :: string
  supportedName :: bool
  kind :: AstItemKind
  documentation :: ApiDocumentation
  getDeclaration :: "ts_Declaration option"

record AstParameter = AstItem_fields +
  param_isOptional :: json
  param_isSpread :: json
  param_type :: json

record AstStructuredType_fields = AstItem_fields +
  extends :: json
  implements :: json
  typeParameters :: json

record AstFunction_fields = AstItem_fields +
  function_params :: "AstParameter list"
  function_returnType :: json

record AstModuleVariable_fields = AstItem_fields +
  variable_type :: json
  variable_value :: json

record AstMember_fields = AstItem_fields +
  accessModifier :: "AccessModifier option"
  isOptional :: json
  isStatic :: json

record AstProperty_fields = AstMember_fields +
  isReadOnly :: json
  property_type :: json

record AstMethod_fields = AstMember_fields +
  params :: "AstParameter list"
  returnType :: json
  getDeclarationLine :: json

text \<open>
  A node of the tree, by its most specific class. A container carries the list that
  \<^verbatim>\<open>getSortedMemberItems()\<close> returns.
\<close>

datatype AstItem =
    AstStructuredType AstStructuredType_fields "AstItem list"
  | AstEnum AstItem_fields "AstItem list"
  | AstEnumValue AstItem_fields
  | AstFunction AstFunction_fields
  | AstPackage AstItem_fields "AstItem list"
  | AstNamespace AstItem_fields "AstItem list"
  | AstMember AstMember_fields
  | AstProperty AstProperty_fields
  | AstModuleVariable AstModuleVariable_fields
  | AstMethod AstMethod_fields

text \<open>\<^verbatim>\<open>astItem.documentation.releaseTag\<close>, \<^verbatim>\<open>astItem.name\<close> and
  \<^verbatim>\<open>astItem.supportedName\<close> of any node.\<close>

fun itemBase :: "AstItem \<Rightarrow> AstItem_fields" where
  "itemBase (AstStructuredType t ms) = AstItem_fields.truncate t"
| "itemBase (AstEnum e ms) = e"
| "itemBase (AstEnumValue v) = v"
| "itemBase (AstFunction f) = AstItem_fields.truncate f"
| "itemBase (AstPackage p ms) = p"
| "itemBase (AstNamespace n ms) = n"
| "itemBase (AstMember m) = AstItem_fields.truncate m"
| "itemBase (AstProperty p) = AstItem_fields.truncate p"
| "itemBase (AstModuleVariable v) = AstItem_fields.truncate v"
| "itemBase (AstMethod m) = AstItem_fields.truncate m"

definition itemReleaseTag :: "AstItem \<Rightarrow> ReleaseTag" where
  "itemReleaseTag i = releaseTag (documentation (itemBase i))"

subsection \<open>External collaborators\<close>

text \<open>
  \<^verbatim>\<open>ApiJsonFile.convertKindToJson\<close> (\<^verbatim>\<open>jsonItem/ApiJsonFile.ts\<close>) is not among the
  sources: the table from a kind to its discriminator string is the parameter \<open>ck\<close> of
  every function below that uses it.
\<close>

type_synonym kindTable = "AstItemKind \<Rightarrow> string"

subsection \<open>The projectors without members\<close>

text \<open>\<^verbatim>\<open>documentation.releaseTag === ReleaseTag.Beta\<close>\<close>

definition isBeta :: "'a AstItem_fields_scheme \<Rightarrow> json" where
  "isBeta i = JBool (releaseTag (documentation i) = ReleaseTag_Beta)"

text \<open>
  \<^verbatim>\<open>visitApiParam\<close> writes three fields into the record of the parameter in
  \<^verbatim>\<open>documentation.parameters\<close>, when there is one; the result is that record as it is
  afterwards (\<^term>\<open>None\<close> for \<^verbatim>\<open>undefined\<close>).
\<close>

definition visitApiParam :: "AstParameter \<Rightarrow> obj option \<Rightarrow> obj option" where
  "visitApiParam apiParam refObject =
     (if \<not> supportedName apiParam then refObject
      else case refObject of
        None \<Rightarrow> None
      | Some r \<Rightarrow>
          Some (setProp (setProp (setProp r
            ''isOptional'' (param_isOptional apiParam))
            ''isSpread'' (param_isSpread apiParam))
            ''type'' (param_type apiParam)))"

text \<open>
  \<^verbatim>\<open>for (const param of params) this.visitApiParam(param, parameters[param.name])\<close>:
  the dictionary \<^verbatim>\<open>documentation.parameters\<close> after the loop.
\<close>

fun visitApiParams :: "AstParameter list \<Rightarrow> (string \<times> obj) list \<Rightarrow> (string \<times> obj) list" where
  "visitApiParams [] ps = ps"
| "visitApiParams (param # rest) ps =
     visitApiParams rest
       (case visitApiParam param (map_of ps (name param)) of
          None \<Rightarrow> ps
        | Some r \<Rightarrow> setProp ps (name param) r)"

definition parametersJson :: "(string \<times> obj) list \<Rightarrow> json" where
  "parametersJson ps = JObject (map (\<lambda>(k, r). (k, JObject r)) ps)"

text \<open>
  The local constants of the projectors that the properties below speak about (the
  \<^verbatim>\<open>value\<close> of \<^verbatim>\<open>visitAstEnumValue\<close>, the \<^verbatim>\<open>newNode\<close> of \<^verbatim>\<open>visitAstProperty\<close> and of
  \<^verbatim>\<open>visitAstMethod\<close>) are definitions of their own, named after the projector.
\<close>

definition visitAstEnumValue_value :: "AstItem_fields \<Rightarrow> string" where
  "visitAstEnumValue_value apiEnumValue =
     (let declaration = getDeclaration apiEnumValue;
          firstToken = (case declaration of None \<Rightarrow> None | Some d \<Rightarrow> getFirstToken d);
          lastToken = (case declaration of None \<Rightarrow> None | Some d \<Rightarrow> getLastToken d)
      in case lastToken of
           None \<Rightarrow> ''''
         | Some t \<Rightarrow> if lastToken \<noteq> firstToken then getText t else '''')"

definition visitAstEnumValue :: "kindTable \<Rightarrow> AstItem_fields \<Rightarrow> obj \<Rightarrow> obj" where
  "visitAstEnumValue ck apiEnumValue refObject =
     (if \<not> supportedName apiEnumValue then refObject
      else
        let value = visitAstEnumValue_value apiEnumValue
        in setProp refObject (name apiEnumValue) (JObject
             [(''kind'', JString (ck (kind apiEnumValue))),
              (''value'', JString value),
              (''deprecatedMessage'', orElse (deprecatedMessage (documentation apiEnumValue)) (JArray [])),
              (''summary'', orElse (summary (documentation apiEnumValue)) (JArray [])),
              (''remarks'', orElse (remarks (documentation apiEnumValue)) (JArray [])),
              (''isBeta'', isBeta apiEnumValue)]))"

definition visitAstFunction :: "kindTable \<Rightarrow> AstFunction_fields \<Rightarrow> obj \<Rightarrow> obj" where
  "visitAstFunction ck apiFunction refObject =
     (if \<not> supportedName apiFunction then refObject
      else
        let parameters' = visitApiParams (function_params apiFunction)
                            (parameters (documentation apiFunction));
            returnValueNode = JObject
              [(''type'', function_returnType apiFunction),
               (''description'', returnsMessage (documentation apiFunction))];
            newNode = JObject
              [(''kind'', JString (ck (kind apiFunction))),
               (''returnValue'', returnValueNode),
               (''parameters'', parametersJson parameters'),
               (''deprecatedMessage'', orElse (deprecatedMessage (documentation apiFunction)) (JArray [])),
               (''summary'', orElse (summary (documentation apiFunction)) (JArray [])),
               (''remarks'', orElse (remarks (documentation apiFunction)) (JArray [])),
               (''isBeta'', isBeta apiFunction)]
        in setProp refObject (name apiFunction) newNode)"

text \<open>What a \<^verbatim>\<open>throw\<close> carries: the \<^verbatim>\<open>TypeError\<close> of reading a property of
  \<^verbatim>\<open>undefined\<close>, or \<^verbatim>\<open>new Error(message)\<close>.\<close>

datatype error = TypeError | Error string

text \<open>
  \<^verbatim>\<open>refObject[apiMember.name] = 'apiMember-' + apiMember.getDeclaration().kind\<close>
\<close>

definition visitAstMember :: "AstMember_fields \<Rightarrow> obj \<Rightarrow> error + obj" where
  "visitAstMember apiMember refObject =
     (if \<not> supportedName apiMember then Inr refObject
      else case getDeclaration apiMember of
        None \<Rightarrow> Inl TypeError
      | Some d \<Rightarrow>
          Inr (setProp refObject (name apiMember)
                 (JString (''apiMember-'' @ numberToString (syntaxKind d)))))"

definition visitAstProperty_newNode :: "kindTable \<Rightarrow> AstProperty_fields \<Rightarrow> json" where
  "visitAstProperty_newNode ck apiProperty = JObject
     [(''kind'', JString (ck (kind apiProperty))),
      (''isOptional'', JBool (truthy (isOptional apiProperty))),
      (''isReadOnly'', JBool (truthy (isReadOnly apiProperty))),
      (''isStatic'', JBool (truthy (isStatic apiProperty))),
      (''type'', property_type apiProperty),
      (''deprecatedMessage'', orElse (deprecatedMessage (documentation apiProperty)) (JArray [])),
      (''summary'', orElse (summary (documentation apiProperty)) (JArray [])),
      (''remarks'', orElse (remarks (documentation apiProperty)) (JArray [])),
      (''isBeta'', isBeta apiProperty)]"

definition visitAstProperty :: "kindTable \<Rightarrow> AstProperty_fields \<Rightarrow> obj \<Rightarrow> error + obj" where
  "visitAstProperty ck apiProperty refObject =
     (if \<not> supportedName apiProperty then Inr refObject
      else case getDeclaration apiProperty of
        None \<Rightarrow> Inl TypeError
      | Some d \<Rightarrow>
          if syntaxKind d = SetAccessor then Inr refObject
          else
            let newNode = visitAstProperty_newNode ck apiProperty
            in Inr (setProp refObject (name apiProperty) newNode))"

definition visitAstModuleVariable :: "kindTable \<Rightarrow> AstModuleVariable_fields \<Rightarrow> obj \<Rightarrow> obj" where
  "visitAstModuleVariable ck apiModuleVariable refObject =
     (let newNode = JObject
        [(''kind'', JString (ck (kind apiModuleVariable))),
         (''type'', variable_type apiModuleVariable),
         (''value'', variable_value apiModuleVariable),
         (''deprecatedMessage'', orElse (deprecatedMessage (documentation apiModuleVariable)) (JArray [])),
         (''summary'', orElse (summary (documentation apiModuleVariable)) (JArray [])),
         (''remarks'', orElse (remarks (documentation apiModuleVariable)) (JArray [])),
         (''isBeta'', isBeta apiModuleVariable)]
      in setProp refObject (name apiModuleVariable) newNode)"

text \<open>
  \<^verbatim>\<open>apiMethod.accessModifier ? AccessModifier[apiMethod.accessModifier].toLowerCase() : ''\<close>:
  the test is on the number of the enum member, so the member numbered 0 gives the
  empty string as \<^verbatim>\<open>undefined\<close> does.
\<close>

definition accessModifierJson :: "AccessModifier option \<Rightarrow> json" where
  "accessModifierJson a =
     (case a of
        None \<Rightarrow> JString ''''
      | Some m \<Rightarrow> if AccessModifier_value m \<noteq> 0 then JString (AccessModifier_lowerName m)
                  else JString '''')"

definition visitAstMethod_newNode :: "kindTable \<Rightarrow> AstMethod_fields \<Rightarrow> json" where
  "visitAstMethod_newNode ck apiMethod =
     (let parameters' = visitApiParams (params apiMethod) (parameters (documentation apiMethod))
      in (if name apiMethod = ''__constructor'' then JObject
                 [(''kind'', JString (ck Constructor)),
                  (''signature'', getDeclarationLine apiMethod),
                  (''parameters'', parametersJson parameters'),
                  (''deprecatedMessage'', orElse (deprecatedMessage (documentation apiMethod)) (JArray [])),
                  (''summary'', orElse (summary (documentation apiMethod)) (JArray [])),
                  (''remarks'', orElse (remarks (documentation apiMethod)) (JArray []))]
               else
                 let returnValueNode = JObject
                   [(''type'', returnType apiMethod),
                    (''description'', returnsMessage (documentation apiMethod))]
                 in JObject
                 [(''kind'', JString (ck (kind apiMethod))),
                  (''signature'', getDeclarationLine apiMethod),
                  (''accessModifier'', accessModifierJson (accessModifier apiMethod)),
                  (''isOptional'', JBool (truthy (isOptional apiMethod))),
                  (''isStatic'', JBool (truthy (isStatic apiMethod))),
                  (''returnValue'', returnValueNode),
                  (''parameters'', parametersJson parameters'),
                  (''deprecatedMessage'', orElse (deprecatedMessage (documentation apiMethod)) (JArray [])),
                  (''summary'', orElse (summary (documentation apiMethod)) (JArray [])),
                  (''remarks'', orElse (remarks (documentation apiMethod)) (JArray [])),
                  (''isBeta'', isBeta apiMethod)]))"

definition visitAstMethod :: "kindTable \<Rightarrow> AstMethod_fields \<Rightarrow> obj \<Rightarrow> obj" where
  "visitAstMethod ck apiMethod refObject =
     (if \<not> supportedName apiMethod then refObject
      else
        let newNode = visitAstMethod_newNode ck apiMethod
        in setProp refObject (name apiMethod) newNode)"

subsection \<open>The visitor\<close>

text \<open>
  The result of a visit: the container \<^verbatim>\<open>refObject\<close> as it is afterwards, or what was
  thrown; and the value of the static field \<^verbatim>\<open>ApiJsonGenerator._methodCounter\<close>
  afterwards.

  The projectors of the containers call \<^verbatim>\<open>this.visit\<close>, a virtual method: they take
  it as the argument \<open>this_visit\<close>, and the generator's \<^verbatim>\<open>visit\<close> below passes itself.
\<close>

type_synonym outcome = "(error + obj) \<times> int"

type_synonym visitor = "AstItem \<Rightarrow> obj \<Rightarrow> int \<Rightarrow> outcome"

text \<open>
  The loop \<^verbatim>\<open>for (const astItem of members) this.visit(astItem, node)\<close>; a \<^verbatim>\<open>throw\<close>
  ends it.
\<close>

fun visitItems :: "visitor \<Rightarrow> AstItem list \<Rightarrow> obj \<Rightarrow> int \<Rightarrow> outcome" where
  "visitItems this_visit [] refObject mc = (Inr refObject, mc)"
| "visitItems this_visit (astItem # rest) refObject mc =
     (case this_visit astItem refObject mc of
        (Inl e, mc') \<Rightarrow> (Inl e, mc')
      | (Inr refObject', mc') \<Rightarrow> visitItems this_visit rest refObject' mc')"

text \<open>
  The projectors of the containers build the node of the members first and install it
  afterwards; the source installs the (shared) object first and fills it afterwards,
  which gives the same object when nothing is thrown.
\<close>

definition visitAstStructuredType ::
    "kindTable \<Rightarrow> visitor \<Rightarrow> AstStructuredType_fields \<Rightarrow> AstItem list \<Rightarrow> obj \<Rightarrow> int \<Rightarrow> outcome" where
  "visitAstStructuredType ck this_visit apiStructuredType members refObject mc =
     (if \<not> supportedName apiStructuredType then (Inr refObject, mc)
      else
        let kind' =
              (if kind apiStructuredType = Class then ck Class
               else if kind apiStructuredType = Interface then ck Interface
               else '''');
            structureNode =
              [(''kind'', JString kind'),
               (''extends'', orElse (extends apiStructuredType) (JString '''')),
               (''implements'', orElse (implements apiStructuredType) (JString '''')),
               (''typeParameters'', orElse (typeParameters apiStructuredType) (JArray [])),
               (''deprecatedMessage'',
                  orElse (deprecatedMessage (documentation apiStructuredType)) (JArray [])),
               (''summary'', orElse (summary (documentation apiStructuredType)) (JArray [])),
               (''remarks'', orElse (remarks (documentation apiStructuredType)) (JArray [])),
               (''isBeta'', isBeta apiStructuredType)]
        in if members \<noteq> [] then
             (case visitItems this_visit members [] 0 of
                (Inl e, mc') \<Rightarrow> (Inl e, mc')
              | (Inr membersNode, mc') \<Rightarrow>
                  (Inr (setProp refObject (name apiStructuredType)
                          (JObject (setProp structureNode ''members'' (JObject membersNode)))),
                   mc'))
           else (Inr (setProp refObject (name apiStructuredType) (JObject structureNode)), 0))"

definition visitAstEnum ::
    "kindTable \<Rightarrow> visitor \<Rightarrow> AstItem_fields \<Rightarrow> AstItem list \<Rightarrow> obj \<Rightarrow> int \<Rightarrow> outcome" where
  "visitAstEnum ck this_visit apiEnum members refObject mc =
     (if \<not> supportedName apiEnum then (Inr refObject, mc)
      else
        (case visitItems this_visit members [] mc of
           (Inl e, mc') \<Rightarrow> (Inl e, mc')
         | (Inr valuesNode, mc') \<Rightarrow>
             (Inr (setProp refObject (name apiEnum) (JObject
                [(''kind'', JString (ck (kind apiEnum))),
                 (''values'', JObject valuesNode),
                 (''deprecatedMessage'', orElse (deprecatedMessage (documentation apiEnum)) (JArray [])),
                 (''summary'', orElse (summary (documentation apiEnum)) (JArray [])),
                 (''remarks'', orElse (remarks (documentation apiEnum)) (JArray [])),
                 (''isBeta'', isBeta apiEnum)])),
              mc')))"

definition visitAstPackage ::
    "kindTable \<Rightarrow> visitor \<Rightarrow> AstItem_fields \<Rightarrow> AstItem list \<Rightarrow> obj \<Rightarrow> int \<Rightarrow> outcome" where
  "visitAstPackage ck this_visit apiPackage members refObject mc =
     (let refObject1 = setProp refObject ''kind'' (JString (ck (kind apiPackage)));
          refObject2 = setProp refObject1 ''summary'' (summary (documentation apiPackage));
          refObject3 = setProp refObject2 ''remarks'' (remarks (documentation apiPackage))
      in case visitItems this_visit members [] mc of
           (Inl e, mc') \<Rightarrow> (Inl e, mc')
         | (Inr membersNode, mc') \<Rightarrow>
             (Inr (setProp refObject3 ''exports'' (JObject membersNode)), mc'))"

definition visitAstNamespace ::
    "kindTable \<Rightarrow> visitor \<Rightarrow> AstItem_fields \<Rightarrow> AstItem list \<Rightarrow> obj \<Rightarrow> int \<Rightarrow> outcome" where
  "visitAstNamespace ck this_visit apiNamespace members refObject mc =
     (if \<not> supportedName apiNamespace then (Inr refObject, mc)
      else
        (case visitItems this_visit members [] mc of
           (Inl e, mc') \<Rightarrow> (Inl e, mc')
         | (Inr membersNode, mc') \<Rightarrow>
             (Inr (setProp refObject (name apiNamespace) (JObject
                [(''kind'', JString (ck (kind apiNamespace))),
                 (''deprecatedMessage'',
                    orElse (deprecatedMessage (documentation apiNamespace)) (JArray [])),
                 (''summary'', orElse (summary (documentation apiNamespace)) (JArray [])),
                 (''remarks'', orElse (remarks (documentation apiNamespace)) (JArray [])),
                 (''isBeta'', isBeta apiNamespace),
                 (''exports'', JObject membersNode)])),
              mc')))"

text \<open>
  Modelled from the spec: \<^verbatim>\<open>AstItemVisitor.visit\<close> (\<^verbatim>\<open>generators/AstItemVisitor.ts\<close>),
  the dispatch of the base class that \<^verbatim>\<open>super.visit\<close> calls, is not among the sources.
  The spec (4.2, 4.3) says that it "routes each admissible node to its kind-specific
  projector", that "dispatch is a total function over the closed set of kinds", and that
  a plain class member "with no further specialization (neither method, property, nor
  accessor) falls back to" the member projector. \<open>AstItemVisitor_visit\<close> is that
  dispatch, by the class of the node.
\<close>

fun AstItemVisitor_visit :: "kindTable \<Rightarrow> visitor \<Rightarrow> AstItem \<Rightarrow> obj \<Rightarrow> int \<Rightarrow> outcome" where
  "AstItemVisitor_visit ck this_visit (AstStructuredType t ms) refObject mc =
     visitAstStructuredType ck this_visit t ms refObject mc"
| "AstItemVisitor_visit ck this_visit (AstEnum e ms) refObject mc =
     visitAstEnum ck this_visit e ms refObject mc"
| "AstItemVisitor_visit ck this_visit (AstEnumValue v) refObject mc =
     (Inr (visitAstEnumValue ck v refObject), mc)"
| "AstItemVisitor_visit ck this_visit (AstFunction f) refObject mc =
     (Inr (visitAstFunction ck f refObject), mc)"
| "AstItemVisitor_visit ck this_visit (AstPackage p ms) refObject mc =
     visitAstPackage ck this_visit p ms refObject mc"
| "AstItemVisitor_visit ck this_visit (AstNamespace n ms) refObject mc =
     visitAstNamespace ck this_visit n ms refObject mc"
| "AstItemVisitor_visit ck this_visit (AstMember m) refObject mc =
     (visitAstMember m refObject, mc)"
| "AstItemVisitor_visit ck this_visit (AstProperty p) refObject mc =
     (visitAstProperty ck p refObject, mc)"
| "AstItemVisitor_visit ck this_visit (AstModuleVariable v) refObject mc =
     (Inr (visitAstModuleVariable ck v refObject), mc)"
| "AstItemVisitor_visit ck this_visit (AstMethod m) refObject mc =
     (Inr (visitAstMethod ck m refObject), mc)"

text \<open>\<^verbatim>\<open>getSortedMemberItems()\<close> of a container; other nodes have no members.\<close>

fun getSortedMemberItems :: "AstItem \<Rightarrow> AstItem list" where
  "getSortedMemberItems (AstStructuredType t ms) = ms"
| "getSortedMemberItems (AstEnum e ms) = ms"
| "getSortedMemberItems (AstPackage p ms) = ms"
| "getSortedMemberItems (AstNamespace n ms) = ms"
| "getSortedMemberItems _ = []"

text \<open>The loop and the dispatch apply \<open>this_visit\<close> to members of the node only.\<close>

lemma visitItems_cong [fundef_cong]:
  "ms = ms' \<Longrightarrow> r = r' \<Longrightarrow> mc = mc' \<Longrightarrow>
   (\<And>x r m. x \<in> set ms' \<Longrightarrow> v x r m = w x r m) \<Longrightarrow>
   visitItems v ms r mc = visitItems w ms' r' mc'"
  by (induction ms' arbitrary: ms r r' mc mc') (auto split: prod.splits sum.splits)

lemma AstItemVisitor_visit_cong [fundef_cong]:
  "i = i' \<Longrightarrow> r = r' \<Longrightarrow> mc = mc' \<Longrightarrow>
   (\<And>x r m. x \<in> set (getSortedMemberItems i') \<Longrightarrow> v x r m = w x r m) \<Longrightarrow>
   AstItemVisitor_visit ck v i r mc = AstItemVisitor_visit ck w i' r' mc'"
  by (cases i')
     (auto simp: visitAstStructuredType_def visitAstEnum_def visitAstPackage_def
        visitAstNamespace_def Let_def cong: visitItems_cong)

lemma size_member: "x \<in> set (getSortedMemberItems i) \<Longrightarrow> size x < size i"
  by (cases i) (auto simp: less_Suc_eq_le dest: size_list_estimation')

text \<open>
  \<^verbatim>\<open>ApiJsonGenerator.visit\<close>, the override: the switch on the release tag, then
  \<^verbatim>\<open>super.visit(astItem, refObject)\<close>.
\<close>

function visit :: "kindTable \<Rightarrow> AstItem \<Rightarrow> obj \<Rightarrow> int \<Rightarrow> outcome" where
  "visit ck astItem refObject mc =
     (case itemReleaseTag astItem of
        ReleaseTag_None \<Rightarrow> AstItemVisitor_visit ck (visit ck) astItem refObject mc
      | ReleaseTag_Beta \<Rightarrow> AstItemVisitor_visit ck (visit ck) astItem refObject mc
      | ReleaseTag_Public \<Rightarrow> AstItemVisitor_visit ck (visit ck) astItem refObject mc
      | _ \<Rightarrow> (Inr refObject, mc))"
  by pat_completeness auto
termination
  by (relation "measure (\<lambda>(ck, i, r, m). size i)") (auto dest: size_member)

declare visit.simps [simp del]

subsection \<open>Writing the report\<close>

text \<open>
  \<^verbatim>\<open>IJsonSchemaErrorInfo\<close>, and a \<^verbatim>\<open>JsonSchema\<close> by what
  \<^verbatim>\<open>validateObjectWithCallback\<close> does with an object: it calls the callback, with the
  error information, exactly when the object does not conform. (\<^verbatim>\<open>JsonSchema\<close> and
  \<^verbatim>\<open>JsonFile\<close> belong to \<^verbatim>\<open>node-core-library\<close> and are not among the sources.)
\<close>

record IJsonSchemaErrorInfo =
  details :: string

type_synonym JsonSchema = "json \<Rightarrow> IJsonSchemaErrorInfo option"

text \<open>
  What is outside the generator's instance: the static fields of the class, the file
  system (of any type \<open>'fs\<close>) and the console.
\<close>

record 'fs world =
  methodCounter :: int
  jsonSchema_field :: "JsonSchema option"
  files :: 'fs
  console :: "string list"

text \<open>
  The static getter \<^verbatim>\<open>jsonSchema\<close>: the schema is loaded on first use and kept.
  \<open>fromFile\<close> is the result of \<^verbatim>\<open>JsonSchema.fromFile(path.join(__dirname, ...))\<close>.
\<close>

definition jsonSchema :: "JsonSchema \<Rightarrow> 'fs world \<Rightarrow> JsonSchema \<times> 'fs world" where
  "jsonSchema fromFile w =
     (case jsonSchema_field w of
        None \<Rightarrow> (fromFile, w\<lparr>jsonSchema_field := Some fromFile\<rparr>)
      | Some s \<Rightarrow> (s, w))"

text \<open>\<^verbatim>\<open>os.EOL\<close> and \<^verbatim>\<open>path.basename\<close>, as on POSIX.\<close>

definition os_EOL :: string where
  "os_EOL = [CHR 0x0A]"

definition path_basename :: "string \<Rightarrow> string" where
  "path_basename p =
     rev (takeWhile (\<lambda>c. c \<noteq> CHR ''/'') (dropWhile (\<lambda>c. c = CHR ''/'') (rev p)))"

text \<open>
  \<^verbatim>\<open>writeJsonFile(reportFilename, extractor)\<close>. \<open>save\<close> is \<^verbatim>\<open>JsonFile.save\<close>, as the
  change it makes to the file system; \<open>jsonOutput\<close> is the field of the instance when
  the method is called (\<open>[]\<close> for a new instance); \<open>package\<close> and \<open>members\<close> are
  \<^verbatim>\<open>extractor.package\<close>, an \<^verbatim>\<open>AstPackage\<close>.
\<close>

definition writeJsonFile ::
    "kindTable \<Rightarrow> JsonSchema \<Rightarrow> (json \<Rightarrow> string \<Rightarrow> 'fs \<Rightarrow> 'fs) \<Rightarrow>
     string \<Rightarrow> AstItem_fields \<Rightarrow> AstItem list \<Rightarrow> obj \<Rightarrow> 'fs world \<Rightarrow> (error + unit) \<times> 'fs world" where
  "writeJsonFile ck fromFile save reportFilename package members jsonOutput w =
     (case visit ck (AstPackage package members) jsonOutput (methodCounter w) of
        (Inl e, mc) \<Rightarrow> (Inl e, w\<lparr>methodCounter := mc\<rparr>)
      | (Inr jsonOutput', mc) \<Rightarrow>
          let w1 = w\<lparr>methodCounter := mc,
                     files := save (JObject jsonOutput') reportFilename (files w)\<rparr>;
              (schema, w2) = jsonSchema fromFile w1
          in case schema (JObject jsonOutput') of
               None \<Rightarrow> (Inr (), w2)
             | Some errorInfo \<Rightarrow>
                 let errorMessage = path_basename reportFilename
                       @ '' does not conform to the expected schema -- please report this API Extractor bug:''
                       @ os_EOL @ details errorInfo
                 in (Inl (Error errorMessage),
                     w2\<lparr>console := console w2
                          @ [os_EOL @ ''ERROR: '' @ errorMessage @ os_EOL @ os_EOL]\<rparr>))"

subsection \<open>Notions used to state the properties\<close>

text \<open>The release tags that the switch of \<^verbatim>\<open>visit\<close> sends to its \<^verbatim>\<open>default\<close> branch.\<close>

definition rejectedTag :: "ReleaseTag \<Rightarrow> bool" where
  "rejectedTag t = (t = ReleaseTag_Alpha \<or> t = ReleaseTag_Internal)"

text \<open>
  Redaction: every node with a rejected tag, at any depth, is replaced (together with
  everything below it) by one fixed node that says nothing about it.
\<close>

definition hiddenItem :: AstItem where
  "hiddenItem = AstEnumValue
     \<lparr>name = [], supportedName = False, kind = EnumValue,
      documentation = \<lparr>releaseTag = ReleaseTag_Internal, summary = JUndefined,
        remarks = JUndefined, deprecatedMessage = JUndefined, parameters = [],
        returnsMessage = JUndefined\<rparr>,
      getDeclaration = None\<rparr>"

fun redact :: "AstItem \<Rightarrow> AstItem" where
  "redact (AstStructuredType t ms) =
     (if rejectedTag (releaseTag (documentation t)) then hiddenItem
      else AstStructuredType t (map redact ms))"
| "redact (AstEnum e ms) =
     (if rejectedTag (releaseTag (documentation e)) then hiddenItem
      else AstEnum e (map redact ms))"
| "redact (AstPackage p ms) =
     (if rejectedTag (releaseTag (documentation p)) then hiddenItem
      else AstPackage p (map redact ms))"
| "redact (AstNamespace n ms) =
     (if rejectedTag (releaseTag (documentation n)) then hiddenItem
      else AstNamespace n (map redact ms))"
| "redact i = (if rejectedTag (itemReleaseTag i) then hiddenItem else i)"

text \<open>\<^verbatim>\<open>node.kind\<close> and \<^verbatim>\<open>Object.keys(node)\<close> of an emitted value; a value that is not
  an object has neither.\<close>

definition kindOf :: "json \<Rightarrow> json option" where
  "kindOf v = (case v of JObject fs \<Rightarrow> map_of fs ''kind'' | _ \<Rightarrow> None)"

definition keysOf :: "json \<Rightarrow> string list" where
  "keysOf v = (case v of JObject fs \<Rightarrow> map fst fs | _ \<Rightarrow> [])"

text \<open>The two classes whose projectors have no \<^verbatim>\<open>supportedName\<close> check.\<close>

fun nameFilterExempt :: "AstItem \<Rightarrow> bool" where
  "nameFilterExempt (AstPackage p ms) = True"
| "nameFilterExempt (AstModuleVariable v) = True"
| "nameFilterExempt i = False"

text \<open>
  The vocabulary of discriminators: the values of the table at the kinds. The keys under
  which a node holds the container of its members.
\<close>

definition vocabulary :: "kindTable \<Rightarrow> string list" where
  "vocabulary ck = map ck
     [Class, Constructor, Enum, EnumValue, Function, Interface, Method, Namespace, Package,
      Parameter, Property, TypeLiteral, ModuleVariable]"

definition containerKeys :: "string list" where
  "containerKeys = [''members'', ''exports'', ''values'']"

text \<open>
  What an emitted value may be, at every depth: the placeholder string of a plain member, or
  an object whose \<^verbatim>\<open>kind\<close> is a string of the vocabulary or the empty string and whose
  containers (under \<^verbatim>\<open>members\<close>, \<^verbatim>\<open>exports\<close>, \<^verbatim>\<open>values\<close>) are objects in which every
  entry is again such a value.
\<close>

fun emittedNode :: "kindTable \<Rightarrow> json \<Rightarrow> bool"
  and emittedContainer :: "kindTable \<Rightarrow> json \<Rightarrow> bool" where
  "emittedNode ck (JString s) = (take 10 s = ''apiMember-'')"
| "emittedNode ck (JObject fs) =
     ((case map_of fs ''kind'' of
         Some (JString k) \<Rightarrow> k = [] \<or> k \<in> set (vocabulary ck)
       | _ \<Rightarrow> False)
      \<and> (\<forall>(n, v) \<in> set fs. n \<in> set containerKeys \<longrightarrow> emittedContainer ck v))"
| "emittedNode ck _ = False"
| "emittedContainer ck (JObject es) = (\<forall>(n, e) \<in> set es. emittedNode ck e)"
| "emittedContainer ck _ = False"

text \<open>A tree with no package in it (the package is the root of a declaration tree).\<close>

fun noPackage :: "AstItem \<Rightarrow> bool" where
  "noPackage (AstPackage p ms) = False"
| "noPackage (AstStructuredType t ms) = (\<forall>m \<in> set ms. noPackage m)"
| "noPackage (AstEnum e ms) = (\<forall>m \<in> set ms. noPackage m)"
| "noPackage (AstNamespace n ms) = (\<forall>m \<in> set ms. noPackage m)"
| "noPackage i = True"

text \<open>
  The nodes for which the visitor has a \<^verbatim>\<open>return\<close> before any assignment: a rejected
  release tag, a name that is not supported where the projector checks it, and a property
  declared by a setter.
\<close>

definition emitsNothing :: "AstItem \<Rightarrow> bool" where
  "emitsNothing i =
     (rejectedTag (itemReleaseTag i)
      \<or> (\<not> supportedName (itemBase i) \<and> \<not> nameFilterExempt i)
      \<or> (case i of
            AstProperty p \<Rightarrow>
              (case getDeclaration p of
                 Some d \<Rightarrow> syntaxKind d = SetAccessor
               | None \<Rightarrow> False)
          | _ \<Rightarrow> False))"

subsection \<open>An example tree\<close>

text \<open>
  A package that exports a public class \<^verbatim>\<open>Widget\<close>, with a public method
  \<^verbatim>\<open>render(x: number): string\<close> and an internal method \<^verbatim>\<open>debug()\<close>, and an internal class
  \<^verbatim>\<open>Secret\<close> with a public method \<^verbatim>\<open>leak()\<close>; and a table of discriminator strings to
  evaluate it with.
\<close>

fun example_convertKindToJson :: kindTable where
  "example_convertKindToJson Class = ''class''"
| "example_convertKindToJson Constructor = ''constructor''"
| "example_convertKindToJson Enum = ''enum''"
| "example_convertKindToJson EnumValue = ''enum value''"
| "example_convertKindToJson Function = ''function''"
| "example_convertKindToJson Interface = ''interface''"
| "example_convertKindToJson Method = ''method''"
| "example_convertKindToJson Namespace = ''namespace''"
| "example_convertKindToJson Package = ''package''"
| "example_convertKindToJson Parameter = ''parameter''"
| "example_convertKindToJson Property = ''property''"
| "example_convertKindToJson TypeLiteral = ''type literal''"
| "example_convertKindToJson ModuleVariable = ''module variable''"

definition example_documentation :: "ReleaseTag \<Rightarrow> ApiDocumentation" where
  "example_documentation t =
     \<lparr>releaseTag = t, summary = JArray [], remarks = JArray [],
      deprecatedMessage = JUndefined, parameters = [], returnsMessage = JUndefined\<rparr>"

definition example_item ::
    "string \<Rightarrow> AstItemKind \<Rightarrow> ReleaseTag \<Rightarrow> nat \<Rightarrow> string list \<Rightarrow> AstItem_fields" where
  "example_item n k t sk ts =
     \<lparr>name = n, supportedName = True, kind = k, documentation = example_documentation t,
      getDeclaration = Some \<lparr>syntaxKind = sk, tokens = ts\<rparr>\<rparr>"

definition example_method :: "string \<Rightarrow> ReleaseTag \<Rightarrow> AstMethod_fields" where
  "example_method n t =
     \<lparr>name = n, supportedName = True, kind = Method, documentation = example_documentation t,
      getDeclaration = Some \<lparr>syntaxKind = 151, tokens = [n, ''('', '')'', '';'']\<rparr>,
      accessModifier = Some Public, isOptional = JBool False, isStatic = JBool False,
      params = [], returnType = JString ''void'',
      getDeclarationLine = JString (n @ ''(): void;'')\<rparr>"

definition example_x :: AstParameter where
  "example_x =
     \<lparr>name = ''x'', supportedName = True, kind = Parameter,
      documentation = example_documentation ReleaseTag_None, getDeclaration = None,
      param_isOptional = JBool False, param_isSpread = JBool False,
      param_type = JString ''number''\<rparr>"

definition example_render :: AstMethod_fields where
  "example_render =
     (example_method ''render'' ReleaseTag_Public)
       \<lparr>documentation := (example_documentation ReleaseTag_Public)
          \<lparr>parameters := [(''x'', [(''name'', JString ''x''), (''description'', JArray [])])]\<rparr>,
        params := [example_x], returnType := JString ''string'',
        getDeclarationLine := JString ''render(x: number): string;''\<rparr>"

definition example_class :: "string \<Rightarrow> ReleaseTag \<Rightarrow> AstStructuredType_fields" where
  "example_class n t =
     \<lparr>name = n, supportedName = True, kind = Class, documentation = example_documentation t,
      getDeclaration = Some \<lparr>syntaxKind = 229, tokens = [''class'', n, ''{'', ''}'']\<rparr>,
      extends = JUndefined, implements = JUndefined, typeParameters = JUndefined\<rparr>"

definition example_Secret :: AstItem where
  "example_Secret =
     AstStructuredType (example_class ''Secret'' ReleaseTag_Internal)
       [AstMethod (example_method ''leak'' ReleaseTag_Public)]"

definition example_Widget :: AstItem where
  "example_Widget =
     AstStructuredType (example_class ''Widget'' ReleaseTag_Public)
       [AstMethod (example_method ''debug'' ReleaseTag_Internal), AstMethod example_render]"

definition example_package :: AstItem_fields where
  "example_package = example_item ''example-package'' Package ReleaseTag_None 265 []"

text \<open>A plain member, and the two accessors of a property \<^verbatim>\<open>title\<close>.\<close>

definition example_member :: AstMember_fields where
  "example_member =
     \<lparr>name = ''handle'', supportedName = True, kind = Property,
      documentation = example_documentation ReleaseTag_Public,
      getDeclaration = Some \<lparr>syntaxKind = 149, tokens = [''handle'', '';'']\<rparr>,
      accessModifier = None, isOptional = JBool False, isStatic = JBool False\<rparr>"

text \<open>\<^verbatim>\<open>ts.SyntaxKind.GetAccessor\<close>; as for \<open>SetAccessor\<close>, only that the two differ matters.\<close>

definition GetAccessor :: nat where
  "GetAccessor = 153"

definition example_accessor :: "nat \<Rightarrow> AstProperty_fields" where
  "example_accessor sk =
     \<lparr>name = ''title'', supportedName = True, kind = Property,
      documentation = example_documentation ReleaseTag_Public,
      getDeclaration = Some \<lparr>syntaxKind = sk, tokens = [''title'']\<rparr>,
      accessModifier = None, isOptional = JBool False, isStatic = JBool False,
      isReadOnly = JBool False, property_type = JString ''string''\<rparr>"

text \<open>The field names of the two nodes that \<^verbatim>\<open>visitAstMethod\<close> builds, in their order.\<close>

definition constructorFields :: "string list" where
  "constructorFields =
     [''kind'', ''signature'', ''parameters'', ''deprecatedMessage'', ''summary'', ''remarks'']"

definition methodFields :: "string list" where
  "methodFields =
     [''kind'', ''signature'', ''accessModifier'', ''isOptional'', ''isStatic'', ''returnValue'',
      ''parameters'', ''deprecatedMessage'', ''summary'', ''remarks'', ''isBeta'']"

text \<open>A function, a module-level variable whose name is not supported, and a structured
  type that is neither a class nor an interface.\<close>

definition example_function :: AstFunction_fields where
  "example_function =
     \<lparr>name = ''create'', supportedName = True, kind = Function,
      documentation = example_documentation ReleaseTag_Public,
      getDeclaration = Some \<lparr>syntaxKind = 228, tokens = [''function'', ''create'']\<rparr>,
      function_params = [], function_returnType = JString ''Widget''\<rparr>"

definition example_variable :: AstModuleVariable_fields where
  "example_variable =
     \<lparr>name = ''$scope'', supportedName = False, kind = ModuleVariable,
      documentation = example_documentation ReleaseTag_Public,
      getDeclaration = Some \<lparr>syntaxKind = 226, tokens = [''$scope'', ''='', ''1'']\<rparr>,
      variable_type = JString ''number'', variable_value = JString ''1''\<rparr>"

definition example_shape :: AstStructuredType_fields where
  "example_shape = (example_class ''Shape'' ReleaseTag_Public)\<lparr>kind := TypeLiteral\<rparr>"

text \<open>An enum member declaration: its name, then \<^verbatim>\<open>=\<close> and the tokens of the
  initializer when there is one.\<close>

definition example_enumMember :: "string \<Rightarrow> string list \<Rightarrow> AstItem_fields" where
  "example_enumMember n initializer =
     example_item n EnumValue ReleaseTag_Public 264
       (n # (if initializer = [] then [] else ''='' # initializer))"

text \<open>A file system as the list of the files written, the last one first; a schema that
  no document conforms to and one that every document conforms to; a world in which
  nothing has run yet; and the document of the package whose only export is the internal
  class \<^verbatim>\<open>Secret\<close>.\<close>

definition example_save :: "json \<Rightarrow> string \<Rightarrow> (string \<times> json) list \<Rightarrow> (string \<times> json) list" where
  "example_save document filename fs = (filename, document) # fs"

definition example_rejectingSchema :: JsonSchema where
  "example_rejectingSchema document = Some \<lparr>details = ''(#/exports) Additional properties''\<rparr>"

definition example_acceptingSchema :: JsonSchema where
  "example_acceptingSchema document = None"

definition example_world :: "(string \<times> json) list world" where
  "example_world = \<lparr>methodCounter = 0, jsonSchema_field = None, files = [], console = []\<rparr>"

definition example_document :: obj where
  "example_document =
     [(''kind'', JString ''package''), (''summary'', JArray []), (''remarks'', JArray []),
      (''exports'', JObject [])]"

section \<open>Properties\<close>

subsection \<open>Objects\<close>

lemma map_of_setProp: "map_of (setProp ps k v) k' = (if k' = k then Some v else map_of ps k')"
  by (induction ps) auto

lemma keys_setProp:
  "map fst (setProp ps k v) = (if k \<in> fst ` set ps then map fst ps else map fst ps @ [k])"
  by (induction ps) (auto simp: rev_image_eqI)

lemma distinct_setProp: "distinct (map fst ps) \<Longrightarrow> distinct (map fst (setProp ps k v))"
  by (simp add: keys_setProp)

lemma count_setProp:
  "distinct (map fst ps) \<Longrightarrow> length (filter (\<lambda>e. fst e = k) (setProp ps k v)) = 1"
  by (induction ps) (auto simp: filter_empty_conv rev_image_eqI)

subsection \<open>The release tag of a node\<close>

lemma itemReleaseTag_simps:
  "itemReleaseTag (AstStructuredType t ms) = releaseTag (documentation t)"
  "itemReleaseTag (AstEnum e ms) = releaseTag (documentation e)"
  "itemReleaseTag (AstPackage e ms) = releaseTag (documentation e)"
  "itemReleaseTag (AstNamespace e ms) = releaseTag (documentation e)"
  "itemReleaseTag (AstEnumValue e) = releaseTag (documentation e)"
  "itemReleaseTag (AstFunction f) = releaseTag (documentation f)"
  "itemReleaseTag (AstMember m) = releaseTag (documentation m)"
  "itemReleaseTag (AstProperty p) = releaseTag (documentation p)"
  "itemReleaseTag (AstModuleVariable v) = releaseTag (documentation v)"
  "itemReleaseTag (AstMethod me) = releaseTag (documentation me)"
  by (simp_all add: itemReleaseTag_def AstItem_fields.truncate_def)

lemma visit_rejected:
  "rejectedTag (itemReleaseTag i) \<Longrightarrow> visit ck i r mc = (Inr r, mc)"
  by (auto simp: visit.simps rejectedTag_def)

lemma visit_admitted:
  "\<not> rejectedTag (itemReleaseTag i) \<Longrightarrow>
   visit ck i r mc = AstItemVisitor_visit ck (visit ck) i r mc"
  by (cases "itemReleaseTag i") (auto simp: visit.simps rejectedTag_def)

lemma visit_hiddenItem: "visit ck hiddenItem r mc = (Inr r, mc)"
  by (rule visit_rejected) (simp add: hiddenItem_def rejectedTag_def itemReleaseTag_def)

subsection \<open>Rejected subtrees do not reach the document\<close>

lemma visitItems_map:
  "visitItems v (map f ms) r mc = visitItems (\<lambda>x. v (f x)) ms r mc"
  by (induction ms arbitrary: r mc) (auto split: prod.splits sum.splits)

lemma visitItems_redact:
  assumes "\<And>x r m. x \<in> set ms \<Longrightarrow> visit ck x r m = visit ck (redact x) r m"
  shows "visitItems (visit ck) (map redact ms) r mc = visitItems (visit ck) ms r mc"
  unfolding visitItems_map using assms by (intro visitItems_cong) auto

lemma visit_redact: "visit ck (redact i) r mc = visit ck i r mc"
proof (induction ck i r mc rule: visit.induct)
  case (1 ck astItem refObject mc)
  show ?case
  proof (cases "rejectedTag (itemReleaseTag astItem)")
    case True
    then have "redact astItem = hiddenItem"
      by (cases astItem) (simp_all add: itemReleaseTag_simps)
    with True show ?thesis by (simp add: visit_rejected visit_hiddenItem)
  next
    case False
    then have ih: "\<And>x r m. x \<in> set (getSortedMemberItems astItem) \<Longrightarrow>
        visit ck x r m = visit ck (redact x) r m"
      using 1 by (cases "itemReleaseTag astItem") (auto simp: rejectedTag_def)
    have items: "\<And>r m. visitItems (visit ck) (map redact (getSortedMemberItems astItem)) r m
        = visitItems (visit ck) (getSortedMemberItems astItem) r m"
      by (rule visitItems_redact) (rule ih)
    show ?thesis
    proof (cases astItem)
      case (AstStructuredType t ms)
      with False items show ?thesis
        by (simp add: itemReleaseTag_simps visit_admitted visitAstStructuredType_def Let_def
            cong: if_cong)
    next
      case (AstEnum e ms)
      with False items show ?thesis
        by (simp add: itemReleaseTag_simps visit_admitted visitAstEnum_def)
    next
      case (AstPackage e ms)
      with False items show ?thesis
        by (simp add: itemReleaseTag_simps visit_admitted visitAstPackage_def)
    next
      case (AstNamespace e ms)
      with False items show ?thesis
        by (simp add: itemReleaseTag_simps visit_admitted visitAstNamespace_def)
    qed (use False in simp_all)
  qed
qed

subsection \<open>The document does not depend on the static counter\<close>

lemma visitItems_fst_indep:
  assumes "\<And>x r m m'. x \<in> set ms \<Longrightarrow> fst (v x r m) = fst (v x r m')"
  shows "fst (visitItems v ms r mc) = fst (visitItems v ms r mc')"
  using assms
proof (induction ms arbitrary: r mc mc')
  case Nil
  then show ?case by simp
next
  case (Cons a ms)
  have "fst (v a r mc) = fst (v a r mc')" using Cons.prems by simp
  moreover have "\<And>r m m'. fst (visitItems v ms r m) = fst (visitItems v ms r m')"
    using Cons by simp
  ultimately show ?case
    by (cases "v a r mc"; cases "v a r mc'") (auto split: sum.splits)
qed

lemma visit_fst_indep: "fst (visit ck i r mc) = fst (visit ck i r mc')"
proof (induction ck i r mc arbitrary: mc' rule: visit.induct)
  case (1 ck astItem refObject mc)
  show ?case
  proof (cases "rejectedTag (itemReleaseTag astItem)")
    case True
    then show ?thesis by (simp add: visit_rejected)
  next
    case False
    then have ih: "\<And>x r m m'. x \<in> set (getSortedMemberItems astItem) \<Longrightarrow>
        fst (visit ck x r m) = fst (visit ck x r m')"
      using 1 by (cases "itemReleaseTag astItem") (auto simp: rejectedTag_def)
    have items: "\<And>r m m'. fst (visitItems (visit ck) (getSortedMemberItems astItem) r m)
        = fst (visitItems (visit ck) (getSortedMemberItems astItem) r m')"
      by (rule visitItems_fst_indep) (rule ih)
    show ?thesis
    proof (cases astItem)
      case (AstStructuredType t ms)
      with False show ?thesis
        by (simp add: visit_admitted visitAstStructuredType_def Let_def)
    next
      case (AstEnum e ms)
      with False items [of "[]" mc mc'] show ?thesis
        by (cases "visitItems (visit ck) ms [] mc"; cases "visitItems (visit ck) ms [] mc'")
           (auto simp: visit_admitted visitAstEnum_def split: sum.splits)
    next
      case (AstPackage e ms)
      with False items [of "[]" mc mc'] show ?thesis
        by (cases "visitItems (visit ck) ms [] mc"; cases "visitItems (visit ck) ms [] mc'")
           (auto simp: visit_admitted visitAstPackage_def Let_def split: sum.splits)
    next
      case (AstNamespace e ms)
      with False items [of "[]" mc mc'] show ?thesis
        by (cases "visitItems (visit ck) ms [] mc"; cases "visitItems (visit ck) ms [] mc'")
           (auto simp: visit_admitted visitAstNamespace_def split: sum.splits)
    qed (use False in \<open>simp_all add: visit_admitted\<close>)
  qed
qed

subsection \<open>The name filter\<close>

lemma visit_unsupported:
  assumes "\<not> supportedName (itemBase i)" and "\<not> nameFilterExempt i"
  shows "visit ck i r mc = (Inr r, mc)"
proof (cases "rejectedTag (itemReleaseTag i)")
  case True
  then show ?thesis by (rule visit_rejected)
next
  case False
  with assms show ?thesis
    by (cases i)
       (simp_all add: visit_admitted AstItem_fields.truncate_def visitAstStructuredType_def visitAstEnum_def
          visitAstEnumValue_def visitAstFunction_def visitAstNamespace_def visitAstMember_def
          visitAstProperty_def visitAstMethod_def)
qed

subsection \<open>Every installed entry\<close>

lemma vocabulary_member: "ck k \<in> set (vocabulary ck)"
  by (cases k) (simp_all add: vocabulary_def)

lemma set_setProp: "set (setProp r k v) \<subseteq> insert (k, v) (set r)"
  by (induction r) (auto split: if_splits)

lemma emittedContainer_setProp:
  "emittedContainer ck (JObject r) \<Longrightarrow> emittedNode ck v \<Longrightarrow>
   emittedContainer ck (JObject (setProp r k v))"
  using set_setProp [of r k v] by auto

lemma visit_emitsNothing:
  assumes "emitsNothing i" and "visit ck i r mc = (Inr r', mc')"
  shows "r' = r"
proof (cases "rejectedTag (itemReleaseTag i)
    \<or> (\<not> supportedName (itemBase i) \<and> \<not> nameFilterExempt i)")
  case True
  with assms(2) show ?thesis by (auto simp: visit_rejected visit_unsupported)
next
  case False
  with assms(1) obtain p d where "i = AstProperty p" "getDeclaration p = Some d"
      "syntaxKind d = SetAccessor"
    by (auto simp: emitsNothing_def split: AstItem.splits option.splits)
  with False assms(2) show ?thesis
    by (auto simp: visit_admitted visitAstProperty_def split: if_splits)
qed

lemma visitItems_emitted:
  assumes "\<And>x r m r' m'. x \<in> set ms \<Longrightarrow> v x r m = (Inr r', m') \<Longrightarrow>
      r' = r \<or> (\<exists>k e. r' = setProp r k e \<and> emittedNode ck e)"
    and "emittedContainer ck (JObject r)"
    and "visitItems v ms r mc = (Inr r', mc')"
  shows "emittedContainer ck (JObject r')"
  using assms
proof (induction ms arbitrary: r mc)
  case Nil
  then show ?case by simp
next
  case (Cons a ms)
  from Cons.prems(3) obtain r1 m1 where a: "v a r mc = (Inr r1, m1)"
      and rest: "visitItems v ms r1 m1 = (Inr r', mc')"
    by (auto split: prod.splits sum.splits)
  have "r1 = r \<or> (\<exists>k e. r1 = setProp r k e \<and> emittedNode ck e)"
    using Cons.prems(1) [of a r mc r1 m1] a by simp
  then have "emittedContainer ck (JObject r1)"
    using Cons.prems(2) emittedContainer_setProp by blast
  moreover have "r' = r \<or> (\<exists>k e. r' = setProp r k e \<and> emittedNode ck e)"
    if "x \<in> set ms" "v x r m = (Inr r', m')" for x r m r' m'
    using that Cons.prems(1) [of x r m r' m'] by simp
  ultimately show ?case using Cons.IH rest by blast
qed

lemma visit_emits:
  "noPackage i \<Longrightarrow> \<not> emitsNothing i \<Longrightarrow> visit ck i r mc = (Inr r', mc') \<Longrightarrow>
   \<exists>v. r' = setProp r (name (itemBase i)) v \<and> emittedNode ck v"
proof (induction ck i r mc arbitrary: r' mc' rule: visit.induct)
  case (1 ck astItem refObject mc)
  from "1.prems"(2) have adm: "\<not> rejectedTag (itemReleaseTag astItem)"
    by (simp add: emitsNothing_def)
  then have tag: "itemReleaseTag astItem = ReleaseTag_None
      \<or> itemReleaseTag astItem = ReleaseTag_Beta \<or> itemReleaseTag astItem = ReleaseTag_Public"
    by (cases "itemReleaseTag astItem") (auto simp: rejectedTag_def)
  have child: "r' = r \<or> (\<exists>k e. r' = setProp r k e \<and> emittedNode ck e)"
    if "x \<in> set (getSortedMemberItems astItem)" "visit ck x r m = (Inr r', m')" for x r m r' m'
  proof (cases "emitsNothing x")
    case True
    with that(2) show ?thesis by (simp add: visit_emitsNothing)
  next
    case False
    have "noPackage x" using that(1) "1.prems"(1) by (cases astItem) auto
    with False that tag "1.IH" show ?thesis by blast
  qed
  have members: "emittedContainer ck (JObject m)"
    if "visitItems (visit ck) (getSortedMemberItems astItem) [] c = (Inr m, c')" for m c c'
    by (rule visitItems_emitted [OF child _ that]) simp_all
  from "1.prems"(3) adm have d: "AstItemVisitor_visit ck (visit ck) astItem refObject mc = (Inr r', mc')"
    by (simp add: visit_admitted)
  from "1.prems"(2) have sup: "supportedName (itemBase astItem) \<or> nameFilterExempt astItem"
    by (auto simp: emitsNothing_def)
  show ?case
  proof (cases astItem)
    case (AstStructuredType t ms)
    with d sup members show ?thesis
      by (auto simp: visitAstStructuredType_def Let_def AstItem_fields.truncate_def
          containerKeys_def vocabulary_member split: if_splits prod.splits sum.splits)
  next
    case (AstEnum e ms)
    with d sup members show ?thesis
      by (auto simp: visitAstEnum_def containerKeys_def vocabulary_member
          split: if_splits prod.splits sum.splits)
  next
    case (AstEnumValue e)
    with d sup show ?thesis
      by (auto simp: visitAstEnumValue_def Let_def containerKeys_def vocabulary_member)
  next
    case (AstFunction f)
    with d sup show ?thesis
      by (auto simp: visitAstFunction_def Let_def AstItem_fields.truncate_def
          containerKeys_def vocabulary_member)
  next
    case (AstPackage p ms)
    with "1.prems"(1) show ?thesis by simp
  next
    case (AstNamespace e ms)
    with d sup members show ?thesis
      by (auto simp: visitAstNamespace_def containerKeys_def vocabulary_member
          split: if_splits prod.splits sum.splits)
  next
    case (AstMember m)
    with d sup show ?thesis
      by (auto simp: visitAstMember_def AstItem_fields.truncate_def split: option.splits)
  next
    case (AstProperty p)
    with d sup "1.prems"(2) show ?thesis
      by (auto simp: visitAstProperty_def visitAstProperty_newNode_def Let_def emitsNothing_def
          AstItem_fields.truncate_def containerKeys_def vocabulary_member
          split: option.splits if_splits)
  next
    case (AstModuleVariable v)
    with d show ?thesis
      by (auto simp: visitAstModuleVariable_def Let_def AstItem_fields.truncate_def
          containerKeys_def vocabulary_member)
  next
    case (AstMethod m)
    with d sup show ?thesis
      by (auto simp: visitAstMethod_def visitAstMethod_newNode_def Let_def
          AstItem_fields.truncate_def containerKeys_def vocabulary_member)
  qed
qed

lemma visit_package_document:
  assumes "\<forall>m \<in> set ms. noPackage m"
    and "\<not> rejectedTag (releaseTag (documentation p))"
    and "visit ck (AstPackage p ms) r mc = (Inr r', mc')"
  shows "\<exists>m. r' = setProp (setProp (setProp (setProp r
              ''kind'' (JString (ck (kind p))))
              ''summary'' (summary (documentation p)))
              ''remarks'' (remarks (documentation p)))
              ''exports'' (JObject m)
           \<and> emittedContainer ck (JObject m)"
proof -
  have child: "r' = r \<or> (\<exists>k e. r' = setProp r k e \<and> emittedNode ck e)"
    if "x \<in> set ms" "visit ck x r m = (Inr r', m')" for x r m r' m'
  proof (cases "emitsNothing x")
    case True
    with that(2) show ?thesis by (simp add: visit_emitsNothing)
  next
    case False
    with that assms(1) visit_emits [of x ck r m r' m'] show ?thesis by blast
  qed
  have members: "emittedContainer ck (JObject m)"
    if "visitItems (visit ck) ms [] c = (Inr m, c')" for m c c'
    by (rule visitItems_emitted [OF child _ that]) simp_all
  from assms(2,3) have "visitAstPackage ck (visit ck) p ms r mc = (Inr r', mc')"
    by (simp add: visit_admitted itemReleaseTag_simps)
  then obtain m where vi: "visitItems (visit ck) ms [] mc = (Inr m, mc')"
    and r': "r' = setProp (setProp (setProp (setProp r
              ''kind'' (JString (ck (kind p))))
              ''summary'' (summary (documentation p)))
              ''remarks'' (remarks (documentation p)))
              ''exports'' (JObject m)"
    by (auto simp: visitAstPackage_def Let_def split: prod.splits sum.splits)
  from members [OF vi] r' show ?thesis by blast
qed

lemma visit_entry_kind:
  assumes "visit ck i r mc = (Inr r', mc')" and "\<not> emitsNothing i"
  shows "case i of
          AstPackage p ms \<Rightarrow> map_of r' ''kind'' = Some (JString (ck (kind p)))
        | AstMember m \<Rightarrow>
            (\<exists>d. getDeclaration m = Some d
              \<and> map_of r' (name m) = Some (JString (''apiMember-'' @ numberToString (syntaxKind d))))
        | AstStructuredType t ms \<Rightarrow>
            Option.bind (map_of r' (name t)) kindOf
              = Some (JString (if kind t = Class then ck Class
                               else if kind t = Interface then ck Interface else ''''))
        | AstMethod m \<Rightarrow>
            Option.bind (map_of r' (name m)) kindOf
              = Some (JString (if name m = ''__constructor'' then ck Constructor else ck (kind m)))
        | _ \<Rightarrow>
            Option.bind (map_of r' (name (itemBase i))) kindOf
              = Some (JString (ck (kind (itemBase i))))"
proof -
  from assms(2) have adm: "\<not> rejectedTag (itemReleaseTag i)"
    and sup: "supportedName (itemBase i) \<or> nameFilterExempt i"
    by (auto simp: emitsNothing_def)
  from assms(1) adm have d: "AstItemVisitor_visit ck (visit ck) i r mc = (Inr r', mc')"
    by (simp add: visit_admitted)
  show ?thesis
  proof (cases i)
    case (AstStructuredType t ms)
    with d sup show ?thesis
      by (auto simp: visitAstStructuredType_def Let_def map_of_setProp kindOf_def
          AstItem_fields.truncate_def split: if_splits prod.splits sum.splits)
  next
    case (AstEnum e ms)
    with d sup show ?thesis
      by (auto simp: visitAstEnum_def map_of_setProp kindOf_def
          split: if_splits prod.splits sum.splits)
  next
    case (AstEnumValue e)
    with d sup show ?thesis
      by (auto simp: visitAstEnumValue_def Let_def map_of_setProp kindOf_def split: if_splits)
  next
    case (AstFunction f)
    with d sup show ?thesis
      by (auto simp: visitAstFunction_def Let_def map_of_setProp kindOf_def
          AstItem_fields.truncate_def split: if_splits)
  next
    case (AstPackage p ms)
    with d sup show ?thesis
      by (auto simp: visitAstPackage_def Let_def map_of_setProp
          split: if_splits prod.splits sum.splits)
  next
    case (AstNamespace e ms)
    with d sup show ?thesis
      by (auto simp: visitAstNamespace_def map_of_setProp kindOf_def
          split: if_splits prod.splits sum.splits)
  next
    case (AstMember m)
    with d sup show ?thesis
      by (auto simp: visitAstMember_def map_of_setProp AstItem_fields.truncate_def
          split: if_splits option.splits)
  next
    case (AstProperty p)
    with d sup assms(2) show ?thesis
      by (auto simp: visitAstProperty_def visitAstProperty_newNode_def Let_def map_of_setProp
          kindOf_def emitsNothing_def AstItem_fields.truncate_def split: if_splits option.splits)
  next
    case (AstModuleVariable v)
    with d sup show ?thesis
      by (auto simp: visitAstModuleVariable_def Let_def map_of_setProp kindOf_def
          AstItem_fields.truncate_def)
  next
    case (AstMethod m)
    with d sup show ?thesis
      by (auto simp: visitAstMethod_def visitAstMethod_newNode_def Let_def map_of_setProp
          kindOf_def AstItem_fields.truncate_def split: if_splits)
  qed
qed

subsection \<open>The value of an enum member\<close>

lemma visitAstEnumValue_value_tokens:
  "getDeclaration v = Some d \<Longrightarrow>
   visitAstEnumValue_value v = (if length (tokens d) \<le> 1 then '''' else last (tokens d))"
  by (cases "tokens d")
     (auto simp: visitAstEnumValue_value_def getFirstToken_def getLastToken_def getText_def)

text \<open>
  For an admitted enum value the emitted \<^verbatim>\<open>value\<close> is the text of the last token of the
  declaration when the declaration has more than one token, and the empty string
  otherwise: the text of an initializer of one token, and the empty string when there is
  no initializer.
\<close>

lemma enum_value_last_token:
  assumes "itemReleaseTag (AstEnumValue v) \<in> {ReleaseTag_None, ReleaseTag_Beta, ReleaseTag_Public}"
    and "supportedName v"
  shows "visit ck (AstEnumValue v) r mc =
            (Inr (setProp r (name v) (JObject
               [(''kind'', JString (ck (kind v))),
                (''value'', JString (visitAstEnumValue_value v)),
                (''deprecatedMessage'', orElse (deprecatedMessage (documentation v)) (JArray [])),
                (''summary'', orElse (summary (documentation v)) (JArray [])),
                (''remarks'', orElse (remarks (documentation v)) (JArray [])),
                (''isBeta'', isBeta v)])), mc)
    \<and> (case getDeclaration v of
          None \<Rightarrow> visitAstEnumValue_value v = []
        | Some d \<Rightarrow>
            visitAstEnumValue_value v = (if length (tokens d) \<le> 1 then [] else last (tokens d))
            \<and> (\<forall>n. tokens d = [n] \<longrightarrow> visitAstEnumValue_value v = [])
            \<and> (\<forall>n t. tokens d = [n, ''='', t] \<longrightarrow> visitAstEnumValue_value v = t))"
proof -
  have "\<not> rejectedTag (itemReleaseTag (AstEnumValue v))"
    using assms(1) by (auto simp: rejectedTag_def)
  then have "visit ck (AstEnumValue v) r mc =
            (Inr (setProp r (name v) (JObject
               [(''kind'', JString (ck (kind v))),
                (''value'', JString (visitAstEnumValue_value v)),
                (''deprecatedMessage'', orElse (deprecatedMessage (documentation v)) (JArray [])),
                (''summary'', orElse (summary (documentation v)) (JArray [])),
                (''remarks'', orElse (remarks (documentation v)) (JArray [])),
                (''isBeta'', isBeta v)])), mc)"
    using assms(2) by (simp add: visit_admitted visitAstEnumValue_def)
  moreover have "getDeclaration v = None \<Longrightarrow> visitAstEnumValue_value v = []"
    by (simp add: visitAstEnumValue_value_def)
  ultimately show ?thesis
    by (auto simp: visitAstEnumValue_value_tokens split: option.splits)
qed

lemma enum_value_last_token_examples:
  "visitAstEnumValue_value (example_enumMember ''A'' [''5'']) = ''5''
   \<and> visitAstEnumValue_value (example_enumMember ''B'' []) = []
   \<and> visitAstEnumValue_value (example_enumMember ''C'' [''1'', ''<<'', ''2'']) = ''2''
   \<and> visit example_convertKindToJson (AstEnumValue (example_enumMember ''A'' [''5''])) [] 0
        = (Inr [(''A'', JObject
            [(''kind'', JString ''enum value''), (''value'', JString ''5''),
             (''deprecatedMessage'', JArray []), (''summary'', JArray []),
             (''remarks'', JArray []), (''isBeta'', JBool False)])], 0)"
proof -
  have h: "itemReleaseTag (AstEnumValue (example_enumMember n i))
        \<in> {ReleaseTag_None, ReleaseTag_Beta, ReleaseTag_Public}"
      "supportedName (example_enumMember n i)" for n i
    by (simp_all add: itemReleaseTag_simps example_enumMember_def example_item_def
        example_documentation_def)
  have d: "getDeclaration (example_enumMember n i)
      = Some \<lparr>syntaxKind = 264, tokens = n # (if i = [] then [] else ''='' # i)\<rparr>"
      "name (example_enumMember n i) = n" "kind (example_enumMember n i) = EnumValue"
      "documentation (example_enumMember n i) = example_documentation ReleaseTag_Public" for n i
    by (simp_all add: example_enumMember_def example_item_def)
  have a: "visitAstEnumValue_value (example_enumMember ''A'' [''5'']) = ''5''"
    using enum_value_last_token [OF h [of "''A''" "[''5'']"], of example_convertKindToJson "[]" 0]
    by (simp add: d)
  have b: "visitAstEnumValue_value (example_enumMember ''B'' []) = []"
    using enum_value_last_token [OF h [of "''B''" "[]"], of example_convertKindToJson "[]" 0]
    by (simp add: d)
  have c: "visitAstEnumValue_value (example_enumMember ''C'' [''1'', ''<<'', ''2'']) = ''2''"
    using enum_value_last_token [OF h [of "''C''" "[''1'', ''<<'', ''2'']"], of example_convertKindToJson "[]" 0]
    by (simp add: d)
  have e: "visit example_convertKindToJson (AstEnumValue (example_enumMember ''A'' [''5''])) [] 0
        = (Inr [(''A'', JObject
            [(''kind'', JString ''enum value''), (''value'', JString ''5''),
             (''deprecatedMessage'', JArray []), (''summary'', JArray []),
             (''remarks'', JArray []), (''isBeta'', JBool False)])], 0)"
    using enum_value_last_token [OF h [of "''A''" "[''5'']"], of example_convertKindToJson "[]" 0]
    by (simp add: d a example_documentation_def orElse_def isBeta_def)
  from a b c e show ?thesis by simp
qed

subsection \<open>Evaluating the example\<close>

lemmas example_defs =
  example_Secret_def example_Widget_def example_class_def example_method_def
  example_render_def example_x_def example_documentation_def example_package_def
  example_item_def

lemma numberToString_149: "numberToString 149 = ''149''"
  by (simp add: numberToString.simps digit_def)

text \<open>
  The document of the example package: \<^verbatim>\<open>exports.Widget.members.render\<close> with its return
  type and its parameter \<^verbatim>\<open>x\<close>, and nothing of \<^verbatim>\<open>debug\<close> or of \<^verbatim>\<open>Secret\<close>; the static
  counter, 7 before, is 0 afterwards.
\<close>

lemma example_round_trip:
  "visit example_convertKindToJson
     (AstPackage example_package [example_Secret, example_Widget]) [] 7 =
   (Inr [(''kind'', JString ''package''), (''summary'', JArray []), (''remarks'', JArray []),
         (''exports'', JObject
           [(''Widget'', JObject
              [(''kind'', JString ''class''), (''extends'', JString ''''),
               (''implements'', JString ''''), (''typeParameters'', JArray []),
               (''deprecatedMessage'', JArray []), (''summary'', JArray []),
               (''remarks'', JArray []), (''isBeta'', JBool False),
               (''members'', JObject
                 [(''render'', JObject
                    [(''kind'', JString ''method''),
                     (''signature'', JString ''render(x: number): string;''),
                     (''accessModifier'', JString ''public''),
                     (''isOptional'', JBool False), (''isStatic'', JBool False),
                     (''returnValue'', JObject
                        [(''type'', JString ''string''), (''description'', JUndefined)]),
                     (''parameters'', JObject
                        [(''x'', JObject
                           [(''name'', JString ''x''), (''description'', JArray []),
                            (''isOptional'', JBool False), (''isSpread'', JBool False),
                            (''type'', JString ''number'')])]),
                     (''deprecatedMessage'', JArray []), (''summary'', JArray []),
                     (''remarks'', JArray []), (''isBeta'', JBool False)])])])])], 0)"
  by (simp add: example_defs visit.simps itemReleaseTag_simps visitAstPackage_def
      visitAstStructuredType_def visitAstMethod_def visitAstMethod_newNode_def
      visitApiParam_def parametersJson_def accessModifierJson_def orElse_def isBeta_def)

lemma example_document_visit:
  "visit example_convertKindToJson (AstPackage example_package [example_Secret]) [] 0
     = (Inr example_document, 0)"
  by (simp add: visit.simps itemReleaseTag_simps example_defs visitAstPackage_def
      example_document_def)

lemma path_basename_example:
  "path_basename ''/out/example-package.api.json'' = ''example-package.api.json''"
  by (simp add: path_basename_def)

section \<open>The claims\<close>

text \<open>
  C1. Stability filter: a visit of a node tagged Alpha or Internal returns the container
  as it was (no entry, and the node's members are not visited); a node tagged None, Beta
  or Public goes to the projector of its class; and the visit of any tree gives the same
  result as the visit of the tree in which every node with a rejected tag, at any depth
  and with all its members, is replaced by one fixed node: nothing of a rejected subtree
  appears in the document, whatever the tags of its members.
\<close>

theorem visit_stability_filter:
  "(itemReleaseTag i = ReleaseTag_Alpha \<or> itemReleaseTag i = ReleaseTag_Internal
      \<longrightarrow> visit ck i r mc = (Inr r, mc))
   \<and> (itemReleaseTag i = ReleaseTag_None \<or> itemReleaseTag i = ReleaseTag_Beta
        \<or> itemReleaseTag i = ReleaseTag_Public
      \<longrightarrow> visit ck i r mc = AstItemVisitor_visit ck (visit ck) i r mc)
   \<and> visit ck (redact i) r mc = visit ck i r mc"
proof (intro conjI impI)
  assume "itemReleaseTag i = ReleaseTag_Alpha \<or> itemReleaseTag i = ReleaseTag_Internal"
  then show "visit ck i r mc = (Inr r, mc)"
    by (simp add: visit_rejected rejectedTag_def)
next
  assume "itemReleaseTag i = ReleaseTag_None \<or> itemReleaseTag i = ReleaseTag_Beta
        \<or> itemReleaseTag i = ReleaseTag_Public"
  then have "\<not> rejectedTag (itemReleaseTag i)" by (auto simp: rejectedTag_def)
  then show "visit ck i r mc = AstItemVisitor_visit ck (visit ck) i r mc"
    by (rule visit_admitted)
next
  show "visit ck (redact i) r mc = visit ck i r mc" by (rule visit_redact)
qed

text \<open>
  At the example: the internal class \<^verbatim>\<open>Secret\<close> leaves the container empty although its
  method is public, the public class \<^verbatim>\<open>Widget\<close> is dispatched, and the package gives
  the document of its redaction, in which \<^verbatim>\<open>Secret\<close> and \<^verbatim>\<open>debug\<close> are gone.
\<close>

theorem visit_stability_filter_witness:
  "visit example_convertKindToJson example_Secret [] 0 = (Inr [], 0)
   \<and> visit example_convertKindToJson example_Widget [] 0 =
       AstItemVisitor_visit example_convertKindToJson (visit example_convertKindToJson)
         example_Widget [] 0
   \<and> redact (AstPackage example_package [example_Secret, example_Widget]) =
       AstPackage example_package
         [hiddenItem,
          AstStructuredType (example_class ''Widget'' ReleaseTag_Public)
            [hiddenItem, AstMethod example_render]]
   \<and> visit example_convertKindToJson
         (AstPackage example_package
           [hiddenItem,
            AstStructuredType (example_class ''Widget'' ReleaseTag_Public)
              [hiddenItem, AstMethod example_render]]) [] 0 =
       visit example_convertKindToJson
         (AstPackage example_package [example_Secret, example_Widget]) [] 0"
proof -
  have red: "redact (AstPackage example_package [example_Secret, example_Widget]) =
       AstPackage example_package
         [hiddenItem,
          AstStructuredType (example_class ''Widget'' ReleaseTag_Public)
            [hiddenItem, AstMethod example_render]]"
    by (simp add: example_defs rejectedTag_def itemReleaseTag_simps)
  show ?thesis
    using visit_stability_filter [of example_Secret example_convertKindToJson "[]" 0]
      visit_stability_filter [of example_Widget example_convertKindToJson "[]" 0]
      visit_stability_filter [of "AstPackage example_package [example_Secret, example_Widget]"
        example_convertKindToJson "[]" 0]
    unfolding red
    by (simp add: example_Secret_def example_Widget_def example_class_def
        example_documentation_def itemReleaseTag_simps)
qed

text \<open>
  C2. Determinism: what a visit does to the container does not depend on the value of
  the static counter that an earlier run has left; and the file system after
  \<^verbatim>\<open>writeJsonFile\<close> on a new instance (\<open>jsonOutput = []\<close>) is the one before with the
  document saved, where the document is a function of the tree and the table of kinds
  alone: it does not depend on the static fields, the console or the files of the
  world in which the run starts.
\<close>

theorem generator_deterministic:
  "fst (visit ck astItem refObject mc) = fst (visit ck astItem refObject mc')
   \<and> files (snd (writeJsonFile ck fromFile save reportFilename package members [] w)) =
       (case fst (visit ck (AstPackage package members) [] 0) of
          Inl e \<Rightarrow> files w
        | Inr document \<Rightarrow> save (JObject document) reportFilename (files w))"
proof
  show "fst (visit ck astItem refObject mc) = fst (visit ck astItem refObject mc')"
    by (rule visit_fst_indep)
next
  obtain res mc1 where v: "visit ck (AstPackage package members) [] (methodCounter w) = (res, mc1)"
    by (cases "visit ck (AstPackage package members) [] (methodCounter w)")
  then have "fst (visit ck (AstPackage package members) [] 0) = res"
    using visit_fst_indep [of ck "AstPackage package members" "[]" 0 "methodCounter w"] by simp
  then show "files (snd (writeJsonFile ck fromFile save reportFilename package members [] w)) =
       (case fst (visit ck (AstPackage package members) [] 0) of
          Inl e \<Rightarrow> files w
        | Inr document \<Rightarrow> save (JObject document) reportFilename (files w))"
    using v
    by (cases res)
       (auto simp: writeJsonFile_def jsonSchema_def Let_def split: option.splits prod.splits)
qed

text \<open>
  C3, as stated, fails on both counts. The value installed for an admitted plain member
  is a string, which carries no \<^verbatim>\<open>kind\<close>; and a module-level variable whose name is not
  supported (\<open>supportedName = False\<close>) is emitted under that name all the same.
\<close>

theorem emitted_kind_counterexample:
  "visitAstMember example_member [] = Inr [(''handle'', JString ''apiMember-149'')]
   \<and> visit example_convertKindToJson (AstMember example_member) [] 0
     = (Inr [(''handle'', JString ''apiMember-149'')], 0)
   \<and> kindOf (JString ''apiMember-149'') = None
   \<and> supportedName example_variable = False
   \<and> map_of (visitAstModuleVariable example_convertKindToJson example_variable [])
        (name example_variable) \<noteq> None
   \<and> visit example_convertKindToJson (AstModuleVariable example_variable) [] 0
     = (Inr [(''$scope'', JObject
          [(''kind'', JString ''module variable''), (''type'', JString ''number''),
           (''value'', JString ''1''), (''deprecatedMessage'', JArray []),
           (''summary'', JArray []), (''remarks'', JArray []), (''isBeta'', JBool False)])], 0)"
  by (simp add: visit.simps itemReleaseTag_simps example_member_def example_documentation_def
      visitAstMember_def numberToString_149 kindOf_def example_variable_def
      visitAstModuleVariable_def orElse_def isBeta_def)

text \<open>
  C3, amended. Whenever a visit returns: (1) the container is unchanged if the node has a
  rejected release tag, or a name that is not supported and is neither a package nor a
  module-level variable, or is a property declared by a setter; (2) for every other node
  below the root the container afterwards is the one before with exactly one entry set,
  under the node's name, and that entry is an emitted value in the sense of
  \<open>emittedNode\<close>, at every depth: the string \<^verbatim>\<open>apiMember-...\<close>, or an object whose \<^verbatim>\<open>kind\<close>
  is in the vocabulary or empty and whose members are such values again (so a module-level
  variable is emitted whatever its name); (3) for the root package the container gets
  \<^verbatim>\<open>kind\<close>, \<^verbatim>\<open>summary\<close>, \<^verbatim>\<open>remarks\<close> and \<^verbatim>\<open>exports\<close>, and every entry of \<^verbatim>\<open>exports\<close> is such a
  value; (4) the \<^verbatim>\<open>kind\<close> is the discriminator of the node's kind, except that a plain
  member has the bare string and no \<^verbatim>\<open>kind\<close>, a structured type has the discriminator of
  Class or Interface or else the empty string, and a method named \<^verbatim>\<open>__constructor\<close> has
  the discriminator of Constructor.
\<close>

theorem emitted_entries:
  assumes "visit ck i r mc = (Inr r', mc')"
  shows "(emitsNothing i \<longrightarrow> r' = r)
    \<and> (\<not> emitsNothing i \<and> noPackage i
        \<longrightarrow> (\<exists>v. r' = setProp r (name (itemBase i)) v \<and> emittedNode ck v))
    \<and> (case i of
          AstPackage p ms \<Rightarrow>
            \<not> emitsNothing i \<and> (\<forall>m \<in> set ms. noPackage m)
            \<longrightarrow> (\<exists>m. r' = setProp (setProp (setProp (setProp r
                          ''kind'' (JString (ck (kind p))))
                          ''summary'' (summary (documentation p)))
                          ''remarks'' (remarks (documentation p)))
                          ''exports'' (JObject m)
                      \<and> emittedContainer ck (JObject m))
        | _ \<Rightarrow> True)
    \<and> (\<not> emitsNothing i \<longrightarrow> (case i of
          AstPackage p ms \<Rightarrow> map_of r' ''kind'' = Some (JString (ck (kind p)))
        | AstMember m \<Rightarrow>
            (\<exists>d. getDeclaration m = Some d
              \<and> map_of r' (name m) = Some (JString (''apiMember-'' @ numberToString (syntaxKind d))))
        | AstStructuredType t ms \<Rightarrow>
            Option.bind (map_of r' (name t)) kindOf
              = Some (JString (if kind t = Class then ck Class
                               else if kind t = Interface then ck Interface else ''''))
        | AstMethod m \<Rightarrow>
            Option.bind (map_of r' (name m)) kindOf
              = Some (JString (if name m = ''__constructor'' then ck Constructor else ck (kind m)))
        | _ \<Rightarrow>
            Option.bind (map_of r' (name (itemBase i))) kindOf
              = Some (JString (ck (kind (itemBase i))))))"
proof (intro conjI impI)
  assume "emitsNothing i"
  then show "r' = r" using assms by (rule visit_emitsNothing)
next
  assume "\<not> emitsNothing i \<and> noPackage i"
  then show "\<exists>v. r' = setProp r (name (itemBase i)) v \<and> emittedNode ck v"
    using assms visit_emits by blast
next
  show "case i of
          AstPackage p ms \<Rightarrow>
            \<not> emitsNothing i \<and> (\<forall>m \<in> set ms. noPackage m)
            \<longrightarrow> (\<exists>m. r' = setProp (setProp (setProp (setProp r
                          ''kind'' (JString (ck (kind p))))
                          ''summary'' (summary (documentation p)))
                          ''remarks'' (remarks (documentation p)))
                          ''exports'' (JObject m)
                      \<and> emittedContainer ck (JObject m))
        | _ \<Rightarrow> True"
  proof (cases i)
    case (AstPackage p ms)
    show ?thesis
      unfolding AstPackage AstItem.case
    proof
      assume a: "\<not> emitsNothing (AstPackage p ms) \<and> (\<forall>m \<in> set ms. noPackage m)"
      then have "\<not> rejectedTag (releaseTag (documentation p))"
        by (simp add: emitsNothing_def itemReleaseTag_simps)
      with a assms show "\<exists>m. r' = setProp (setProp (setProp (setProp r
                          ''kind'' (JString (ck (kind p))))
                          ''summary'' (summary (documentation p)))
                          ''remarks'' (remarks (documentation p)))
                          ''exports'' (JObject m)
                      \<and> emittedContainer ck (JObject m)"
        unfolding AstPackage by (intro visit_package_document) auto
    qed
  qed simp_all
next
  assume "\<not> emitsNothing i"
  with assms show "case i of
          AstPackage p ms \<Rightarrow> map_of r' ''kind'' = Some (JString (ck (kind p)))
        | AstMember m \<Rightarrow>
            (\<exists>d. getDeclaration m = Some d
              \<and> map_of r' (name m) = Some (JString (''apiMember-'' @ numberToString (syntaxKind d))))
        | AstStructuredType t ms \<Rightarrow>
            Option.bind (map_of r' (name t)) kindOf
              = Some (JString (if kind t = Class then ck Class
                               else if kind t = Interface then ck Interface else ''''))
        | AstMethod m \<Rightarrow>
            Option.bind (map_of r' (name m)) kindOf
              = Some (JString (if name m = ''__constructor'' then ck Constructor else ck (kind m)))
        | _ \<Rightarrow>
            Option.bind (map_of r' (name (itemBase i))) kindOf
              = Some (JString (ck (kind (itemBase i))))"
    by (rule visit_entry_kind)
qed

text \<open>
  At the internal class \<^verbatim>\<open>Secret\<close> (nothing is emitted), at the module-level variable
  \<^verbatim>\<open>$scope\<close> whose name is not supported (it is emitted), at the example package (every
  entry of its \<^verbatim>\<open>exports\<close> is an emitted value), and at a structured type that is a type
  literal (its \<^verbatim>\<open>kind\<close> is the empty string).
\<close>

theorem emitted_entries_witness:
  "emitsNothing example_Secret
   \<and> visit example_convertKindToJson example_Secret [] 7 = (Inr [], 7)
   \<and> \<not> supportedName example_variable
   \<and> \<not> emitsNothing (AstModuleVariable example_variable)
   \<and> visit example_convertKindToJson (AstModuleVariable example_variable) [] 7
       = (Inr [(''$scope'', JObject
            [(''kind'', JString ''module variable''), (''type'', JString ''number''),
             (''value'', JString ''1''), (''deprecatedMessage'', JArray []),
             (''summary'', JArray []), (''remarks'', JArray []), (''isBeta'', JBool False)])], 7)
   \<and> emittedNode example_convertKindToJson (JObject
            [(''kind'', JString ''module variable''), (''type'', JString ''number''),
             (''value'', JString ''1''), (''deprecatedMessage'', JArray []),
             (''summary'', JArray []), (''remarks'', JArray []), (''isBeta'', JBool False)])
   \<and> (\<exists>m. fst (visit example_convertKindToJson
              (AstPackage example_package [example_Secret, example_Widget]) [] 7)
            = Inr [(''kind'', JString ''package''), (''summary'', JArray []),
                   (''remarks'', JArray []), (''exports'', JObject m)]
          \<and> map fst m = [''Widget'']
          \<and> emittedContainer example_convertKindToJson (JObject m))
   \<and> visit example_convertKindToJson (AstStructuredType example_shape []) [] 7
     = (Inr [(''Shape'', JObject
          [(''kind'', JString ''''), (''extends'', JString ''''), (''implements'', JString ''''),
           (''typeParameters'', JArray []), (''deprecatedMessage'', JArray []),
           (''summary'', JArray []), (''remarks'', JArray []), (''isBeta'', JBool False)])], 0)
   \<and> Option.bind (map_of [(''Shape'', JObject
          [(''kind'', JString ''''), (''extends'', JString ''''), (''implements'', JString ''''),
           (''typeParameters'', JArray []), (''deprecatedMessage'', JArray []),
           (''summary'', JArray []), (''remarks'', JArray []), (''isBeta'', JBool False)])]
        ''Shape'') kindOf = Some (JString '''')"
proof -
  have s: "emitsNothing example_Secret"
    by (simp add: emitsNothing_def example_Secret_def example_class_def
        example_documentation_def itemReleaseTag_simps rejectedTag_def)
  have w: "visit example_convertKindToJson example_Secret [] 7 = (Inr [], 7)"
    by (simp add: visit.simps example_Secret_def example_class_def example_documentation_def
        itemReleaseTag_simps)
  have a: "\<not> supportedName example_variable"
      "\<not> emitsNothing (AstModuleVariable example_variable)"
      "noPackage (AstModuleVariable example_variable)"
      "name (itemBase (AstModuleVariable example_variable)) = ''$scope''"
    by (simp_all add: emitsNothing_def example_variable_def example_documentation_def
        itemReleaseTag_simps rejectedTag_def AstItem_fields.truncate_def)
  have v: "visit example_convertKindToJson (AstModuleVariable example_variable) [] 7
       = (Inr [(''$scope'', JObject
            [(''kind'', JString ''module variable''), (''type'', JString ''number''),
             (''value'', JString ''1''), (''deprecatedMessage'', JArray []),
             (''summary'', JArray []), (''remarks'', JArray []), (''isBeta'', JBool False)])], 7)"
    by (simp add: visit.simps itemReleaseTag_simps example_variable_def
        example_documentation_def visitAstModuleVariable_def orElse_def isBeta_def)
  have n: "emittedNode example_convertKindToJson (JObject
            [(''kind'', JString ''module variable''), (''type'', JString ''number''),
             (''value'', JString ''1''), (''deprecatedMessage'', JArray []),
             (''summary'', JArray []), (''remarks'', JArray []), (''isBeta'', JBool False)])"
    using emitted_entries [OF v] a by (simp del: emittedNode.simps)
  have p: "\<not> emitsNothing (AstPackage example_package [example_Secret, example_Widget])"
      "\<forall>m \<in> set [example_Secret, example_Widget]. noPackage m"
    by (simp_all add: emitsNothing_def example_package_def example_item_def
        example_documentation_def itemReleaseTag_simps rejectedTag_def example_Secret_def
        example_Widget_def)
  obtain r' mc' where d: "visit example_convertKindToJson
      (AstPackage example_package [example_Secret, example_Widget]) [] 7 = (Inr r', mc')"
    using example_round_trip by blast
  have k: "kind example_package = Package" "summary (documentation example_package) = JArray []"
      "remarks (documentation example_package) = JArray []"
    by (simp_all add: example_package_def example_item_def example_documentation_def)
  obtain m where m: "r' = [(''kind'', JString ''package''), (''summary'', JArray []),
                   (''remarks'', JArray []), (''exports'', JObject m)]"
      and em: "emittedContainer example_convertKindToJson (JObject m)"
    using emitted_entries [OF d] p by (auto simp: k simp del: emittedContainer.simps)
  have keys: "map fst m = [''Widget'']"
    using d m unfolding example_round_trip by auto
  have pk: "\<exists>m. fst (visit example_convertKindToJson
              (AstPackage example_package [example_Secret, example_Widget]) [] 7)
            = Inr [(''kind'', JString ''package''), (''summary'', JArray []),
                   (''remarks'', JArray []), (''exports'', JObject m)]
          \<and> map fst m = [''Widget'']
          \<and> emittedContainer example_convertKindToJson (JObject m)"
    using d m em keys by auto
  have sh: "visit example_convertKindToJson (AstStructuredType example_shape []) [] 7
     = (Inr [(''Shape'', JObject
          [(''kind'', JString ''''), (''extends'', JString ''''), (''implements'', JString ''''),
           (''typeParameters'', JArray []), (''deprecatedMessage'', JArray []),
           (''summary'', JArray []), (''remarks'', JArray []), (''isBeta'', JBool False)])], 0)"
    by (simp add: visit.simps itemReleaseTag_simps example_shape_def example_class_def
        example_documentation_def visitAstStructuredType_def orElse_def isBeta_def)
  have sk: "kind example_shape = TypeLiteral" "name example_shape = ''Shape''"
      "\<not> emitsNothing (AstStructuredType example_shape [])"
    by (simp_all add: example_shape_def example_class_def emitsNothing_def
        example_documentation_def itemReleaseTag_simps rejectedTag_def
        AstItem_fields.truncate_def)
  have shk: "Option.bind (map_of [(''Shape'', JObject
          [(''kind'', JString ''''), (''extends'', JString ''''), (''implements'', JString ''''),
           (''typeParameters'', JArray []), (''deprecatedMessage'', JArray []),
           (''summary'', JArray []), (''remarks'', JArray []), (''isBeta'', JBool False)])]
        ''Shape'') kindOf = Some (JString '''')"
    using emitted_entries [OF sh] sk by simp
  from s w a(1,2) v n pk sh shk emitted_entries [OF w] show ?thesis by blast
qed

text \<open>
  C4, as stated, fails: for an admitted plain member the visitor installs under its name
  the string \<^verbatim>\<open>'apiMember-' + kind\<close> of the declaration. The placeholder is not a node: it
  has no \<^verbatim>\<open>kind\<close> field, and no field at all.
\<close>

theorem placeholder_counterexample:
  "visitAstMember example_member [] = Inr [(''handle'', JString ''apiMember-149'')]
   \<and> visit example_convertKindToJson (AstMember example_member) [] 0
     = (Inr [(''handle'', JString ''apiMember-149'')], 0)
   \<and> kindOf (JString ''apiMember-149'') = None
   \<and> keysOf (JString ''apiMember-149'') = []"
  by (simp add: visit.simps itemReleaseTag_simps example_member_def example_documentation_def
      visitAstMember_def numberToString_149 kindOf_def keysOf_def)

text \<open>
  C4, amended. For an admitted plain member (release tag None, Beta or Public, supported
  name) that has a declaration, the visit is not a failure: it installs under the
  member's name the string \<^verbatim>\<open>apiMember-\<close> followed by the number of the declaration's
  syntax kind, and the loop over the members goes on with the rest.
\<close>

theorem placeholder_member:
  assumes "itemReleaseTag (AstMember m) \<in> {ReleaseTag_None, ReleaseTag_Beta, ReleaseTag_Public}"
    and "supportedName m"
    and "getDeclaration m = Some d"
  shows "visitAstMember m r =
           Inr (setProp r (name m) (JString (''apiMember-'' @ numberToString (syntaxKind d))))
         \<and> visit ck (AstMember m) r mc =
           (Inr (setProp r (name m) (JString (''apiMember-'' @ numberToString (syntaxKind d)))), mc)
         \<and> visitItems (visit ck) (AstMember m # rest) r mc =
             visitItems (visit ck) rest
               (setProp r (name m) (JString (''apiMember-'' @ numberToString (syntaxKind d)))) mc"
proof -
  have "\<not> rejectedTag (itemReleaseTag (AstMember m))"
    using assms(1) by (auto simp: rejectedTag_def)
  then have "visit ck (AstMember m) r mc =
           (Inr (setProp r (name m) (JString (''apiMember-'' @ numberToString (syntaxKind d)))), mc)"
    using assms(2,3) by (simp add: visit_admitted visitAstMember_def)
  then show ?thesis using assms(2,3) by (simp add: visitAstMember_def)
qed

theorem placeholder_member_witness:
  "visitAstMember example_member [] = Inr [(''handle'', JString ''apiMember-149'')]
   \<and> visit example_convertKindToJson (AstMember example_member) [] 0 =
     (Inr [(''handle'', JString ''apiMember-149'')], 0)
   \<and> visitItems (visit example_convertKindToJson)
        [AstMember example_member, AstMethod example_render] [] 0 =
      visitItems (visit example_convertKindToJson) [AstMethod example_render]
        [(''handle'', JString ''apiMember-149'')] 0"
  using placeholder_member [where m = example_member
      and d = "\<lparr>syntaxKind = 149, tokens = [''handle'', '';'']\<rparr>"
      and ck = example_convertKindToJson and r = "[]" and mc = 0
      and rest = "[AstMethod example_render]"]
  by (simp add: itemReleaseTag_simps example_member_def example_documentation_def
      numberToString_149)

text \<open>
  C5. Setter suppression: for a getter and a setter of one name, both admitted and with
  a supported name, the visit of the setter leaves the container as it is, the visit of
  the getter installs the property node under the name, and visiting both, in either
  order, gives a container with exactly one entry of that name (the container's keys
  being distinct before, as those of every object are).
\<close>

theorem setter_suppression:
  assumes "itemReleaseTag (AstProperty g) \<in> {ReleaseTag_None, ReleaseTag_Beta, ReleaseTag_Public}"
    and "itemReleaseTag (AstProperty s) \<in> {ReleaseTag_None, ReleaseTag_Beta, ReleaseTag_Public}"
    and "supportedName g" and "supportedName s" and "name s = name g"
    and "getDeclaration g = Some dg" and "syntaxKind dg \<noteq> SetAccessor"
    and "getDeclaration s = Some ds" and "syntaxKind ds = SetAccessor"
    and "distinct (map fst r)"
  shows "visit ck (AstProperty s) r mc = (Inr r, mc)
    \<and> visit ck (AstProperty g) r mc
        = (Inr (setProp r (name g) (visitAstProperty_newNode ck g)), mc)
    \<and> visitItems (visit ck) [AstProperty g, AstProperty s] r mc
        = (Inr (setProp r (name g) (visitAstProperty_newNode ck g)), mc)
    \<and> visitItems (visit ck) [AstProperty s, AstProperty g] r mc
        = (Inr (setProp r (name g) (visitAstProperty_newNode ck g)), mc)
    \<and> length (filter (\<lambda>e. fst e = name g)
          (setProp r (name g) (visitAstProperty_newNode ck g))) = 1"
proof -
  have adm: "\<not> rejectedTag (itemReleaseTag (AstProperty g))"
      "\<not> rejectedTag (itemReleaseTag (AstProperty s))"
    using assms(1,2) by (auto simp: rejectedTag_def)
  have s: "visit ck (AstProperty s) r' mc' = (Inr r', mc')" for r' mc'
    using adm(2) assms(4,8,9) by (simp add: visit_admitted visitAstProperty_def)
  have g: "visit ck (AstProperty g) r mc
      = (Inr (setProp r (name g) (visitAstProperty_newNode ck g)), mc)"
    using adm(1) assms(3,6,7) by (simp add: visit_admitted visitAstProperty_def)
  have "length (filter (\<lambda>e. fst e = name g)
      (setProp r (name g) (visitAstProperty_newNode ck g))) = 1"
    using assms(10) by (rule count_setProp)
  with g s show ?thesis by simp
qed

theorem setter_suppression_witness:
  "visit example_convertKindToJson (AstProperty (example_accessor SetAccessor)) [] 0 = (Inr [], 0)
   \<and> visit example_convertKindToJson (AstProperty (example_accessor GetAccessor)) [] 0
       = (Inr [(''title'',
            visitAstProperty_newNode example_convertKindToJson (example_accessor GetAccessor))], 0)
   \<and> visitItems (visit example_convertKindToJson)
        [AstProperty (example_accessor GetAccessor),
         AstProperty (example_accessor SetAccessor)] [] 0
       = (Inr [(''title'',
            visitAstProperty_newNode example_convertKindToJson (example_accessor GetAccessor))], 0)
   \<and> visitItems (visit example_convertKindToJson)
        [AstProperty (example_accessor SetAccessor),
         AstProperty (example_accessor GetAccessor)] [] 0
       = (Inr [(''title'',
            visitAstProperty_newNode example_convertKindToJson (example_accessor GetAccessor))], 0)
   \<and> length (filter (\<lambda>e. fst e = ''title'')
        [(''title'',
          visitAstProperty_newNode example_convertKindToJson (example_accessor GetAccessor))]) = 1"
proof -
  have n: "name (example_accessor sk) = ''title''" for sk
    by (simp add: example_accessor_def)
  have h: "itemReleaseTag (AstProperty (example_accessor sk))
        \<in> {ReleaseTag_None, ReleaseTag_Beta, ReleaseTag_Public}"
      "supportedName (example_accessor sk)"
      "getDeclaration (example_accessor sk) = Some \<lparr>syntaxKind = sk, tokens = [''title'']\<rparr>"
    for sk
    by (simp_all add: itemReleaseTag_simps example_accessor_def example_documentation_def)
  have k: "syntaxKind \<lparr>syntaxKind = GetAccessor, tokens = [''title'']\<rparr> \<noteq> SetAccessor"
      "syntaxKind \<lparr>syntaxKind = SetAccessor, tokens = [''title'']\<rparr> = SetAccessor"
    by (simp_all add: GetAccessor_def SetAccessor_def)
  have d: "distinct (map fst ([] :: obj))" by simp
  have nn: "name (example_accessor SetAccessor) = name (example_accessor GetAccessor)"
    by (simp add: n)
  show ?thesis
    using setter_suppression [OF h(1) h(1) h(2) h(2) nn h(3) k(1) h(3) k(2) d,
        of example_convertKindToJson 0]
    by (simp only: n setProp.simps)
qed

text \<open>
  C6. Constructor distinctness: an admitted method named \<^verbatim>\<open>__constructor\<close> is installed
  with the discriminator of the kind Constructor and with the six fields
  \<open>constructorFields\<close>, none of which is \<^verbatim>\<open>accessModifier\<close>, \<^verbatim>\<open>isStatic\<close>, \<^verbatim>\<open>isOptional\<close>,
  \<^verbatim>\<open>returnValue\<close> or \<^verbatim>\<open>isBeta\<close>; every other admitted method is installed with the
  discriminator of its own kind and the eleven fields \<open>methodFields\<close>, which contain
  all five.
\<close>

theorem constructor_distinct:
  assumes "itemReleaseTag (AstMethod m) \<in> {ReleaseTag_None, ReleaseTag_Beta, ReleaseTag_Public}"
    and "supportedName m"
  shows "visit ck (AstMethod m) r mc = (Inr (setProp r (name m) (visitAstMethod_newNode ck m)), mc)
    \<and> (if name m = ''__constructor''
        then kindOf (visitAstMethod_newNode ck m) = Some (JString (ck Constructor))
          \<and> keysOf (visitAstMethod_newNode ck m) = constructorFields
          \<and> set (keysOf (visitAstMethod_newNode ck m))
              \<inter> {''accessModifier'', ''isStatic'', ''isOptional'', ''returnValue'', ''isBeta''} = {}
        else kindOf (visitAstMethod_newNode ck m) = Some (JString (ck (kind m)))
          \<and> keysOf (visitAstMethod_newNode ck m) = methodFields
          \<and> {''accessModifier'', ''isStatic'', ''isOptional'', ''returnValue'', ''isBeta''}
              \<subseteq> set (keysOf (visitAstMethod_newNode ck m)))"
proof -
  have "\<not> rejectedTag (itemReleaseTag (AstMethod m))"
    using assms(1) by (auto simp: rejectedTag_def)
  then have v: "visit ck (AstMethod m) r mc
      = (Inr (setProp r (name m) (visitAstMethod_newNode ck m)), mc)"
    using assms(2) by (simp add: visit_admitted visitAstMethod_def)
  show ?thesis
  proof (cases "name m = ''__constructor''")
    case True
    then show ?thesis
      unfolding v
      by (simp add: visitAstMethod_newNode_def Let_def kindOf_def keysOf_def constructorFields_def)
  next
    case False
    then show ?thesis
      unfolding v
      by (simp add: visitAstMethod_newNode_def Let_def kindOf_def keysOf_def methodFields_def)
  qed
qed

theorem constructor_distinct_witness:
  "visit example_convertKindToJson
        (AstMethod (example_method ''__constructor'' ReleaseTag_None)) [] 0
      = (Inr [(''__constructor'', visitAstMethod_newNode example_convertKindToJson
                 (example_method ''__constructor'' ReleaseTag_None))], 0)
   \<and> kindOf (visitAstMethod_newNode example_convertKindToJson
         (example_method ''__constructor'' ReleaseTag_None)) = Some (JString ''constructor'')
   \<and> keysOf (visitAstMethod_newNode example_convertKindToJson
         (example_method ''__constructor'' ReleaseTag_None)) = constructorFields
   \<and> visit example_convertKindToJson (AstMethod example_render) [] 0
      = (Inr [(''render'', visitAstMethod_newNode example_convertKindToJson example_render)], 0)
   \<and> kindOf (visitAstMethod_newNode example_convertKindToJson example_render)
      = Some (JString ''method'')
   \<and> keysOf (visitAstMethod_newNode example_convertKindToJson example_render) = methodFields"
proof -
  have n: "name (example_method ''__constructor'' ReleaseTag_None) = ''__constructor''"
      "name example_render = ''render''" "kind example_render = Method"
    by (simp_all add: example_method_def example_render_def)
  have c: "itemReleaseTag (AstMethod (example_method ''__constructor'' ReleaseTag_None))
        \<in> {ReleaseTag_None, ReleaseTag_Beta, ReleaseTag_Public}"
      "supportedName (example_method ''__constructor'' ReleaseTag_None)"
    by (simp_all add: example_method_def itemReleaseTag_simps example_documentation_def)
  have m: "itemReleaseTag (AstMethod example_render)
        \<in> {ReleaseTag_None, ReleaseTag_Beta, ReleaseTag_Public}"
      "supportedName example_render"
    by (simp_all add: example_method_def example_render_def itemReleaseTag_simps
        example_documentation_def)
  show ?thesis
    using constructor_distinct [OF c, of example_convertKindToJson "[]" 0]
      constructor_distinct [OF m, of example_convertKindToJson "[]" 0]
    by (simp add: n)
qed

text \<open>
  C7. The claim is what the code is after (the field is called \<^verbatim>\<open>value\<close>), and the code
  meets it for an initializer of one token (\<^verbatim>\<open>A = 5\<close> gives \<^verbatim>\<open>5\<close>, see
  \<open>enum_value_last_token\<close>) and for no initializer. It misses it for an initializer of
  several tokens, of which it takes the last one only: \<^verbatim>\<open>A = -5\<close> gives \<^verbatim>\<open>5\<close>,
  \<^verbatim>\<open>B = (1)\<close> gives \<^verbatim>\<open>)\<close>, \<^verbatim>\<open>C = 1 << 2\<close> gives \<^verbatim>\<open>2\<close>.
\<close>

theorem enum_value_initializer_lost:
  "visit example_convertKindToJson
     (AstEnumValue (example_enumMember ''A'' [''-'', ''5''])) [] 0
   = (Inr [(''A'', JObject
        [(''kind'', JString ''enum value''), (''value'', JString ''5''),
         (''deprecatedMessage'', JArray []), (''summary'', JArray []),
         (''remarks'', JArray []), (''isBeta'', JBool False)])], 0)
   \<and> visitAstEnumValue_value (example_enumMember ''A'' [''-'', ''5'']) = ''5''
   \<and> visitAstEnumValue_value (example_enumMember ''B'' [''('', ''1'', '')'']) = '')''
   \<and> visitAstEnumValue_value (example_enumMember ''C'' [''1'', ''<<'', ''2'']) = ''2''"
  by (simp add: visit.simps itemReleaseTag_simps example_enumMember_def example_item_def
      example_documentation_def visitAstEnumValue_def visitAstEnumValue_value_def
      getFirstToken_def getLastToken_def getText_def orElse_def isBeta_def)

text \<open>
  C8. Name filter: the visit of a node whose name is not supported, other than a package
  or a module-level variable, returns the container as it was; so does each projector
  that has the check (structured type, enum, enum value, function, namespace, member,
  property, method, and the parameter visitor). The projectors of the package and of the
  module-level variable give the same result whatever \<open>supportedName\<close> is, and they do
  emit: the package writes its \<^verbatim>\<open>kind\<close> into the container, the variable installs its node
  under its name.
\<close>

theorem name_filter:
  "(\<not> supportedName (itemBase i) \<and> \<not> nameFilterExempt i \<longrightarrow> visit ck i r mc = (Inr r, mc))
   \<and> (\<not> supportedName t \<longrightarrow> visitAstStructuredType ck v t ms r mc = (Inr r, mc))
   \<and> (\<not> supportedName e \<longrightarrow> visitAstEnum ck v e ms r mc = (Inr r, mc))
   \<and> (\<not> supportedName e \<longrightarrow> visitAstEnumValue ck e r = r)
   \<and> (\<not> supportedName f \<longrightarrow> visitAstFunction ck f r = r)
   \<and> (\<not> supportedName e \<longrightarrow> visitAstNamespace ck v e ms r mc = (Inr r, mc))
   \<and> (\<not> supportedName m \<longrightarrow> visitAstMember m r = Inr r)
   \<and> (\<not> supportedName p \<longrightarrow> visitAstProperty ck p r = Inr r)
   \<and> (\<not> supportedName me \<longrightarrow> visitAstMethod ck me r = r)
   \<and> (\<not> supportedName pa \<longrightarrow> visitApiParam pa ro = ro)
   \<and> visitAstPackage ck v (e\<lparr>supportedName := b\<rparr>) ms r mc = visitAstPackage ck v e ms r mc
   \<and> (case visitAstPackage ck v e ms r mc of
         (Inl err, mc') \<Rightarrow> True
       | (Inr r', mc') \<Rightarrow> map_of r' ''kind'' = Some (JString (ck (kind e))))
   \<and> visitAstModuleVariable ck (mv\<lparr>supportedName := b\<rparr>) r = visitAstModuleVariable ck mv r
   \<and> Option.bind (map_of (visitAstModuleVariable ck mv r) (name mv)) kindOf
       = Some (JString (ck (kind mv)))"
proof -
  have pk: "(case visitAstPackage ck v e ms r mc of
         (Inl err, mc') \<Rightarrow> True
       | (Inr r', mc') \<Rightarrow> map_of r' ''kind'' = Some (JString (ck (kind e))))"
    by (simp add: visitAstPackage_def map_of_setProp split: prod.splits sum.splits)
  have mv: "Option.bind (map_of (visitAstModuleVariable ck mv r) (name mv)) kindOf
       = Some (JString (ck (kind mv)))"
    by (simp add: visitAstModuleVariable_def map_of_setProp kindOf_def)
  show ?thesis
    using pk mv
    by (simp add: visit_unsupported visitAstStructuredType_def visitAstEnum_def
          visitAstEnumValue_def visitAstFunction_def visitAstNamespace_def visitAstMember_def
          visitAstProperty_def visitAstMethod_def visitApiParam_def visitAstPackage_def
          visitAstModuleVariable_def isBeta_def)
qed

theorem name_filter_witness:
  "visit example_convertKindToJson
      (AstStructuredType ((example_class ''Widget'' ReleaseTag_Public)\<lparr>supportedName := False\<rparr>)
         [AstMethod example_render]) [] 0 = (Inr [], 0)
   \<and> visitAstStructuredType example_convertKindToJson (visit example_convertKindToJson)
        ((example_class ''Widget'' ReleaseTag_Public)\<lparr>supportedName := False\<rparr>)
        [AstMethod example_render] [] 0 = (Inr [], 0)
   \<and> visitAstEnum example_convertKindToJson (visit example_convertKindToJson)
        (example_package\<lparr>supportedName := False\<rparr>) [AstMethod example_render] [] 0 = (Inr [], 0)
   \<and> visitAstEnumValue example_convertKindToJson (example_package\<lparr>supportedName := False\<rparr>) [] = []
   \<and> visitAstFunction example_convertKindToJson (example_function\<lparr>supportedName := False\<rparr>) [] = []
   \<and> visitAstNamespace example_convertKindToJson (visit example_convertKindToJson)
        (example_package\<lparr>supportedName := False\<rparr>) [AstMethod example_render] [] 0 = (Inr [], 0)
   \<and> visitAstMember (example_member\<lparr>supportedName := False\<rparr>) [] = Inr []
   \<and> visitAstProperty example_convertKindToJson
        ((example_accessor GetAccessor)\<lparr>supportedName := False\<rparr>) [] = Inr []
   \<and> visitAstMethod example_convertKindToJson (example_render\<lparr>supportedName := False\<rparr>) [] = []
   \<and> visitApiParam (example_x\<lparr>supportedName := False\<rparr>) (Some []) = Some []
   \<and> visitAstPackage example_convertKindToJson (visit example_convertKindToJson)
        (example_package\<lparr>supportedName := False\<rparr>) [AstMethod example_render] [] 0
       = visitAstPackage example_convertKindToJson (visit example_convertKindToJson)
           (example_package\<lparr>supportedName := True\<rparr>) [AstMethod example_render] [] 0
   \<and> Option.bind (map_of (visitAstModuleVariable example_convertKindToJson example_variable [])
         ''$scope'') kindOf = Some (JString ''module variable'')"
proof -
  have n: "name example_variable = ''$scope''" "kind example_variable = ModuleVariable"
    by (simp_all add: example_variable_def)
  show ?thesis
    using name_filter [where ck = example_convertKindToJson and r = "[]" and mc = 0
        and i = "AstStructuredType
          ((example_class ''Widget'' ReleaseTag_Public)\<lparr>supportedName := False\<rparr>)
          [AstMethod example_render]"
        and t = "(example_class ''Widget'' ReleaseTag_Public)\<lparr>supportedName := False\<rparr>"
        and v = "visit example_convertKindToJson" and ms = "[AstMethod example_render]"
        and e = "example_package\<lparr>supportedName := False\<rparr>"
        and f = "example_function\<lparr>supportedName := False\<rparr>"
        and m = "example_member\<lparr>supportedName := False\<rparr>"
        and p = "(example_accessor GetAccessor)\<lparr>supportedName := False\<rparr>"
        and me = "example_render\<lparr>supportedName := False\<rparr>"
        and pa = "example_x\<lparr>supportedName := False\<rparr>" and ro = "Some []"
        and b = True and mv = example_variable]
    by (simp add: n AstItem_fields.truncate_def)
qed

text \<open>
  C9. \<^verbatim>\<open>writeJsonFile\<close> either returns with nothing written to the console, or throws.
  When the visit has returned the document and the schema (the cached one, else the one
  loaded from the file) accepts it, the call returns; when the schema reports
  \<open>errorInfo\<close>, the call throws \<^verbatim>\<open>Error\<close> with the message made of the base name of
  \<open>reportFilename\<close>, the fixed sentence, a line break and \<open>errorInfo.details\<close>.
\<close>

theorem writeJsonFile_failure_surface:
  "((fst (writeJsonFile ck fromFile save reportFilename package members jsonOutput w) = Inr ()
      \<and> console (snd (writeJsonFile ck fromFile save reportFilename package members jsonOutput w))
          = console w)
     \<or> (\<exists>e. fst (writeJsonFile ck fromFile save reportFilename package members jsonOutput w)
          = Inl e))
   \<and> (visit ck (AstPackage package members) jsonOutput (methodCounter w) = (Inr out, mc)
        \<and> (case jsonSchema_field w of None \<Rightarrow> fromFile | Some s \<Rightarrow> s) (JObject out) = None
      \<longrightarrow> fst (writeJsonFile ck fromFile save reportFilename package members jsonOutput w)
            = Inr ())
   \<and> (visit ck (AstPackage package members) jsonOutput (methodCounter w) = (Inr out, mc)
        \<and> (case jsonSchema_field w of None \<Rightarrow> fromFile | Some s \<Rightarrow> s) (JObject out)
            = Some errorInfo
      \<longrightarrow> fst (writeJsonFile ck fromFile save reportFilename package members jsonOutput w)
            = Inl (Error (path_basename reportFilename
                @ '' does not conform to the expected schema -- please report this API Extractor bug:''
                @ os_EOL @ details errorInfo)))"
proof (intro conjI impI)
  show "(fst (writeJsonFile ck fromFile save reportFilename package members jsonOutput w) = Inr ()
      \<and> console (snd (writeJsonFile ck fromFile save reportFilename package members jsonOutput w))
          = console w)
     \<or> (\<exists>e. fst (writeJsonFile ck fromFile save reportFilename package members jsonOutput w)
          = Inl e)"
    by (cases "visit ck (AstPackage package members) jsonOutput (methodCounter w)")
       (auto simp: writeJsonFile_def jsonSchema_def Let_def split: option.splits sum.splits)
next
  assume "visit ck (AstPackage package members) jsonOutput (methodCounter w) = (Inr out, mc)
        \<and> (case jsonSchema_field w of None \<Rightarrow> fromFile | Some s \<Rightarrow> s) (JObject out) = None"
  then show "fst (writeJsonFile ck fromFile save reportFilename package members jsonOutput w)
            = Inr ()"
    by (auto simp: writeJsonFile_def jsonSchema_def Let_def split: option.splits)
next
  assume "visit ck (AstPackage package members) jsonOutput (methodCounter w) = (Inr out, mc)
        \<and> (case jsonSchema_field w of None \<Rightarrow> fromFile | Some s \<Rightarrow> s) (JObject out)
            = Some errorInfo"
  then show "fst (writeJsonFile ck fromFile save reportFilename package members jsonOutput w)
            = Inl (Error (path_basename reportFilename
                @ '' does not conform to the expected schema -- please report this API Extractor bug:''
                @ os_EOL @ details errorInfo))"
    by (auto simp: writeJsonFile_def jsonSchema_def Let_def split: option.splits)
qed

theorem writeJsonFile_failure_surface_witness:
  "fst (writeJsonFile example_convertKindToJson example_rejectingSchema example_save
         ''/out/example-package.api.json'' example_package [example_Secret] [] example_world)
     = Inl (Error (''example-package.api.json''
              @ '' does not conform to the expected schema -- please report this API Extractor bug:''
              @ os_EOL @ ''(#/exports) Additional properties''))
   \<and> fst (writeJsonFile example_convertKindToJson example_acceptingSchema example_save
         ''/out/example-package.api.json'' example_package [example_Secret] [] example_world)
     = Inr ()
   \<and> console (snd (writeJsonFile example_convertKindToJson example_acceptingSchema example_save
         ''/out/example-package.api.json'' example_package [example_Secret] [] example_world))
     = []"
proof -
  have v: "visit example_convertKindToJson (AstPackage example_package [example_Secret]) []
      (methodCounter example_world) = (Inr example_document, 0)"
    by (simp add: example_world_def example_document_visit)
  have s: "(case jsonSchema_field example_world of None \<Rightarrow> example_rejectingSchema | Some s \<Rightarrow> s)
      (JObject example_document) = Some \<lparr>details = ''(#/exports) Additional properties''\<rparr>"
    by (simp add: example_world_def example_rejectingSchema_def)
  have t: "(case jsonSchema_field example_world of None \<Rightarrow> example_acceptingSchema | Some s \<Rightarrow> s)
      (JObject example_document) = None"
    by (simp add: example_world_def example_acceptingSchema_def)
  have c: "console example_world = []"
    by (simp add: example_world_def)
  have rejecting: "fst (writeJsonFile example_convertKindToJson example_rejectingSchema
         example_save ''/out/example-package.api.json'' example_package [example_Secret] []
         example_world)
     = Inl (Error (path_basename ''/out/example-package.api.json''
              @ '' does not conform to the expected schema -- please report this API Extractor bug:''
              @ os_EOL @ details \<lparr>details = ''(#/exports) Additional properties''\<rparr>))"
    using v s writeJsonFile_failure_surface [where ck = example_convertKindToJson
        and fromFile = example_rejectingSchema and save = example_save
        and reportFilename = "''/out/example-package.api.json''" and package = example_package
        and members = "[example_Secret]" and jsonOutput = "[]" and w = example_world
        and out = example_document and mc = 0
        and errorInfo = "\<lparr>details = ''(#/exports) Additional properties''\<rparr>"]
    by blast
  have accepting: "fst (writeJsonFile example_convertKindToJson example_acceptingSchema
         example_save ''/out/example-package.api.json'' example_package [example_Secret] []
         example_world) = Inr ()
     \<and> console (snd (writeJsonFile example_convertKindToJson example_acceptingSchema
         example_save ''/out/example-package.api.json'' example_package [example_Secret] []
         example_world)) = console example_world"
    using v t writeJsonFile_failure_surface [where ck = example_convertKindToJson
        and fromFile = example_acceptingSchema and save = example_save
        and reportFilename = "''/out/example-package.api.json''" and package = example_package
        and members = "[example_Secret]" and jsonOutput = "[]" and w = example_world
        and out = example_document and mc = 0]
    by auto
  show ?thesis
    using rejecting accepting
    by (simp only: path_basename_example c IJsonSchemaErrorInfo.simps)
qed

text \<open>
  C10. When the visit has returned the document and the schema rejects it,
  \<^verbatim>\<open>writeJsonFile\<close> throws and the file system afterwards is the one in which the document
  has been saved under \<open>reportFilename\<close>: saving comes before validation and is not undone.
\<close>

theorem save_before_validation:
  assumes "visit ck (AstPackage package members) jsonOutput (methodCounter w) = (Inr out, mc)"
    and "(case jsonSchema_field w of None \<Rightarrow> fromFile | Some s \<Rightarrow> s) (JObject out) = Some errorInfo"
  shows "(\<exists>message.
           fst (writeJsonFile ck fromFile save reportFilename package members jsonOutput w)
             = Inl (Error message))
    \<and> files (snd (writeJsonFile ck fromFile save reportFilename package members jsonOutput w))
        = save (JObject out) reportFilename (files w)"
  using assms
  by (auto simp: writeJsonFile_def jsonSchema_def Let_def split: option.splits)

theorem save_before_validation_witness:
  "(\<exists>message. fst (writeJsonFile example_convertKindToJson example_rejectingSchema example_save
         ''/out/example-package.api.json'' example_package [example_Secret] [] example_world)
     = Inl (Error message))
   \<and> files (snd (writeJsonFile example_convertKindToJson example_rejectingSchema example_save
         ''/out/example-package.api.json'' example_package [example_Secret] [] example_world))
     = [(''/out/example-package.api.json'', JObject example_document)]"
proof -
  have v: "visit example_convertKindToJson (AstPackage example_package [example_Secret]) []
      (methodCounter example_world) = (Inr example_document, 0)"
    by (simp add: example_world_def example_document_visit)
  have s: "(case jsonSchema_field example_world of None \<Rightarrow> example_rejectingSchema | Some s \<Rightarrow> s)
      (JObject example_document) = Some \<lparr>details = ''(#/exports) Additional properties''\<rparr>"
    by (simp add: example_world_def example_rejectingSchema_def)
  show ?thesis
    using save_before_validation [OF v s, of example_save "''/out/example-package.api.json''"]
    by (simp add: example_world_def example_save_def)
qed

end
